theory Spec2Isabelle
  imports Main "HOL-Library.Monad_Syntax"
begin

section \<open>Python values and built-in conversions\<close>

text \<open>
  The handlers of \<^verbatim>\<open>crypto_app/api/binance_websocket.py\<close> work on what
  \<^verbatim>\<open>json.loads\<close> returns: \<^verbatim>\<open>None\<close>, booleans, integers, floats, strings, lists and
  dictionaries with string keys. Floating point values stay abstract (the type
  parameter \<open>'f\<close>); a dictionary is an association list read with \<open>map_of\<close>
  (a decoded object has each key once).
\<close>

datatype 'f json =
    JNull
  | JBool bool
  | JInt int
  | JFloat 'f
  | JStr string
  | JArr "'f json list"
  | JObj "(string \<times> 'f json) list"

text \<open>
  The built-ins whose results depend on floating point arithmetic or on the grammar of
  numeric literals are parameters of the model: every theorem below holds for each
  choice of them. \<open>None\<close> stands for a raised exception (\<^verbatim>\<open>ValueError\<close>,
  \<^verbatim>\<open>OverflowError\<close>).
\<close>

record 'f builtins =
  float_of_int :: "int \<Rightarrow> 'f"
  float_of_str :: "string \<Rightarrow> 'f option"
  int_of_float :: "'f \<Rightarrow> int option"
  int_of_str :: "string \<Rightarrow> int option"
  float_truth :: "'f \<Rightarrow> bool"
  str_lower :: "string \<Rightarrow> string"
  str_of_int :: "int \<Rightarrow> string"

text \<open>
  \<^verbatim>\<open>float(x)\<close>: an integer converts unless it rounds to \<open>2 ^ 1024\<close> or beyond
  (\<^verbatim>\<open>OverflowError\<close>), a boolean is the integer 0 or 1, a string is parsed
  (\<^verbatim>\<open>ValueError\<close>), and \<^verbatim>\<open>None\<close>, lists and dictionaries raise \<^verbatim>\<open>TypeError\<close>.
  Every exception is \<open>None\<close>: the handlers catch them all with
  \<^verbatim>\<open>except Exception\<close> and only log.
\<close>

definition float_overflow :: "int \<Rightarrow> bool" where
  "float_overflow i = (2 ^ 1024 - 2 ^ 970 \<le> \<bar>i\<bar>)"

fun py_float :: "'f builtins \<Rightarrow> 'f json \<Rightarrow> 'f option" where
  "py_float B JNull = None"
| "py_float B (JBool b) = Some (float_of_int B (if b then 1 else 0))"
| "py_float B (JInt i) = (if float_overflow i then None else Some (float_of_int B i))"
| "py_float B (JFloat x) = Some x"
| "py_float B (JStr s) = float_of_str B s"
| "py_float B (JArr xs) = None"
| "py_float B (JObj kvs) = None"

fun py_int :: "'f builtins \<Rightarrow> 'f json \<Rightarrow> int option" where
  "py_int B JNull = None"
| "py_int B (JBool b) = Some (if b then 1 else 0)"
| "py_int B (JInt i) = Some i"
| "py_int B (JFloat x) = int_of_float B x"
| "py_int B (JStr s) = int_of_str B s"
| "py_int B (JArr xs) = None"
| "py_int B (JObj kvs) = None"

text \<open>Truth value of an object, as \<^verbatim>\<open>not x\<close> and \<^verbatim>\<open>if x\<close> read it.\<close>

fun py_truth :: "'f builtins \<Rightarrow> 'f json \<Rightarrow> bool" where
  "py_truth B JNull = False"
| "py_truth B (JBool b) = b"
| "py_truth B (JInt i) = (i \<noteq> 0)"
| "py_truth B (JFloat x) = float_truth B x"
| "py_truth B (JStr s) = (s \<noteq> [])"
| "py_truth B (JArr xs) = (xs \<noteq> [])"
| "py_truth B (JObj kvs) = (kvs \<noteq> [])"

text \<open>
  \<^verbatim>\<open>d.get(key, default)\<close>: only a dictionary has the method (\<^verbatim>\<open>AttributeError\<close>
  otherwise).
\<close>

fun py_get :: "'f json \<Rightarrow> string \<Rightarrow> 'f json \<Rightarrow> 'f json option" where
  "py_get (JObj kvs) key dflt = Some (case map_of kvs key of None \<Rightarrow> dflt | Some v \<Rightarrow> v)"
| "py_get d key dflt = None"

text \<open>
  \<^verbatim>\<open>x[i]\<close> for a literal index \<open>i \<ge> 0\<close>: a list or a string is indexed
  (\<^verbatim>\<open>IndexError\<close> out of range), a dictionary has string keys only
  (\<^verbatim>\<open>KeyError\<close>), nothing else is subscriptable.
\<close>

fun py_index :: "'f json \<Rightarrow> nat \<Rightarrow> 'f json option" where
  "py_index (JArr xs) i = (if i < length xs then Some (xs ! i) else None)"
| "py_index (JStr s) i = (if i < length s then Some (JStr [s ! i]) else None)"
| "py_index v i = None"

text \<open>\<^verbatim>\<open>xs[:n]\<close>: a negative bound counts from the end.\<close>

definition py_take :: "int \<Rightarrow> 'a list \<Rightarrow> 'a list" where
  "py_take n xs = (if 0 \<le> n then take (nat n) xs else take (length xs - nat (- n)) xs)"

fun py_slice_to :: "'f json \<Rightarrow> int \<Rightarrow> 'f json option" where
  "py_slice_to (JArr xs) n = Some (JArr (py_take n xs))"
| "py_slice_to (JStr s) n = Some (JStr (py_take n s))"
| "py_slice_to v n = None"

text \<open>
  The items a \<^verbatim>\<open>for\<close> loop or a comprehension visits: the elements of a list, the
  characters of a string, the keys of a dictionary; other values are not iterable.
\<close>

fun py_iter :: "'f json \<Rightarrow> 'f json list option" where
  "py_iter (JArr xs) = Some xs"
| "py_iter (JStr s) = Some (map (\<lambda>c. JStr [c]) s)"
| "py_iter (JObj kvs) = Some (map (\<lambda>kv. JStr (fst kv)) kvs)"
| "py_iter v = None"

section \<open>What a handler does to the outside\<close>

text \<open>
  A handler returns the new state of the client and the list of its effects, in
  order: logger calls, connections spawned and closed, reconnect threads started,
  sleeps, requests sent, callbacks invoked. \<open>Reconnecting w n\<close> is the one logger
  call whose text matters below, \<^verbatim>\<open>Reconnecting in {w}s (attempt {n})\<close>;
  \<open>StartReconnect\<close> is \<^verbatim>\<open>reconnect_thread.start()\<close> and \<open>Sleep w\<close> is
  \<^verbatim>\<open>time.sleep(w)\<close> in the reconnect thread. A callback is an opaque handle of the consumer's
  callable; what the consumer does inside it is not part of the client, and an
  exception it raises changes nothing of the client: the message handlers catch it
  and log.
\<close>

type_synonym callback = nat

datatype websocket = WebSocketApp string

datatype level = DEBUG | INFO | WARNING | ERROR

datatype 'p effect =
    Log level
  | RunForever websocket
  | WsClose websocket
  | Reconnecting nat nat
  | StartReconnect
  | Sleep nat
  | HttpGet nat
  | MessageCallback callback 'p
  | ErrorCallback callback "string list"

section \<open>Connection lifecycle\<close>

text \<open>
  \<^verbatim>\<open>BinanceWebSocketClient\<close>, \<^verbatim>\<open>BinanceDepthClient\<close> and \<^verbatim>\<open>BinanceKlineClient\<close>
  repeat the same lifecycle methods line for line, so the fields they share are one
  record and the methods are defined once, over every extension of it. The field
  \<^verbatim>\<open>_thread\<close> is written and never read; it is left out.
\<close>

record conn =
  symbol :: string
  ws_url :: string
  ws :: "websocket option"
  is_connected :: bool
  on_message_callback :: "callback option"
  on_error_callback :: "callback option"

record client = conn +
  is_disconnecting :: bool
  reconnect_attempts :: nat
  max_reconnect_attempts :: nat

record 'd data_client = client +
  last_data :: "'d option"

definition set_on_message_callback :: "callback \<Rightarrow> 'a conn_scheme \<Rightarrow> 'a conn_scheme" where
  "set_on_message_callback cb s = s\<lparr>on_message_callback := Some cb\<rparr>"

definition set_on_error_callback :: "callback \<Rightarrow> 'a conn_scheme \<Rightarrow> 'a conn_scheme" where
  "set_on_error_callback cb s = s\<lparr>on_error_callback := Some cb\<rparr>"

text \<open>
  \<^verbatim>\<open>_attempt_reconnect\<close>: it counts the attempt, computes
  \<^verbatim>\<open>min(2 ** self._reconnect_attempts, 60)\<close> for the log line and starts the
  thread that runs \<^verbatim>\<open>_reconnect_wait\<close>.
\<close>

definition attempt_reconnect :: "'a client_scheme \<Rightarrow> 'a client_scheme \<times> 'p effect list" where
  "attempt_reconnect s =
     (if is_disconnecting s then (s, [])
      else if reconnect_attempts s < max_reconnect_attempts s then
        (let s' = s\<lparr>reconnect_attempts := reconnect_attempts s + 1\<rparr>;
             wait_time = min (2 ^ reconnect_attempts s') 60
         in (s', [Reconnecting wait_time (reconnect_attempts s'), StartReconnect]))
      else (s, [Log ERROR]))"

text \<open>
  \<^verbatim>\<open>_run_ws\<close>, the body of the thread \<^verbatim>\<open>connect\<close> starts. What is outside the
  client's control is an input: whether building the \<^verbatim>\<open>WebSocketApp\<close> raises, or
  starting its thread does.
\<close>

datatype spawn = Spawned | AppRaises | ThreadRaises

definition run_ws :: "spawn \<Rightarrow> 'a client_scheme \<Rightarrow> 'a client_scheme \<times> 'p effect list" where
  "run_ws sp s =
     (case sp of
        AppRaises \<Rightarrow>
          (let (s', es) = attempt_reconnect s in (s', Log ERROR # es))
      | ThreadRaises \<Rightarrow>
          (let (s', es) = attempt_reconnect (s\<lparr>ws := Some (WebSocketApp (ws_url s))\<rparr>)
           in (s', Log ERROR # es))
      | Spawned \<Rightarrow>
          (s\<lparr>ws := Some (WebSocketApp (ws_url s))\<rparr>, [RunForever (WebSocketApp (ws_url s))]))"

definition connect :: "spawn \<Rightarrow> 'a client_scheme \<Rightarrow> 'a client_scheme \<times> 'p effect list" where
  "connect sp s = (let (s', es) = run_ws sp s in (s', es @ [Log INFO]))"

definition on_open :: "'a client_scheme \<Rightarrow> 'a client_scheme \<times> 'p effect list" where
  "on_open s = (s\<lparr>is_connected := True, reconnect_attempts := 0\<rparr>, [Log INFO])"

definition on_error :: "string \<Rightarrow> 'a client_scheme \<Rightarrow> 'a client_scheme \<times> 'p effect list" where
  "on_error err s =
     (s, Log ERROR # (case on_error_callback s of None \<Rightarrow> [] | Some cb \<Rightarrow> [ErrorCallback cb [err]]))"

definition on_close :: "'a client_scheme \<Rightarrow> 'a client_scheme \<times> 'p effect list" where
  "on_close s =
     (let s1 = s\<lparr>is_connected := False\<rparr> in
      if \<not> is_disconnecting s1 then
        (let (s2, es) = attempt_reconnect s1 in (s2, Log WARNING # es))
      else (s1, [Log WARNING]))"

text \<open>
  \<^verbatim>\<open>_reconnect_wait\<close>, the body of the reconnect thread, in its two parts. When
  the thread runs it computes \<^verbatim>\<open>min(2 ** self._reconnect_attempts, 60)\<close> again,
  from the counter as it is then, and sleeps that long. When the sleep is over it calls
  \<^verbatim>\<open>self.connect()\<close>. Other methods of the client can run in between.
\<close>

definition reconnect_wait_sleep :: "'a client_scheme \<Rightarrow> 'a client_scheme \<times> 'p effect list" where
  "reconnect_wait_sleep s =
     (let wait_time = min (2 ^ reconnect_attempts s) 60 in (s, [Sleep wait_time]))"

definition reconnect_wait_connect ::
  "spawn \<Rightarrow> 'a client_scheme \<Rightarrow> 'a client_scheme \<times> 'p effect list" where
  "reconnect_wait_connect sp s = connect sp s"

text \<open>
  \<^verbatim>\<open>disconnect\<close> of the ticker and depth clients; the flag says whether
  \<^verbatim>\<open>self.ws.close()\<close> raises.
\<close>

definition disconnect :: "bool \<Rightarrow> ('d, 'a) data_client_scheme \<Rightarrow> ('d, 'a) data_client_scheme \<times> 'p effect list" where
  "disconnect close_raises s =
     (let s1 = s\<lparr>is_disconnecting := True, is_connected := False\<rparr>;
          es = (case ws s1 of
                  None \<Rightarrow> []
                | Some w \<Rightarrow> [WsClose w, Log (if close_raises then WARNING else INFO)])
      in (s1\<lparr>on_message_callback := None, on_error_callback := None, last_data := None\<rparr>,
          [Log INFO] @ es @ [Log INFO]))"

section \<open>Ticker client\<close>

record 'f ticker =
  price :: 'f
  high :: 'f
  low :: 'f
  volume :: 'f
  quote_volume :: 'f
  price_change :: 'f
  price_change_percent :: 'f
  timestamp :: int

type_synonym 'f ticker_client = "'f ticker data_client"

definition ticker_init :: "'f builtins \<Rightarrow> string \<Rightarrow> 'f ticker_client" where
  "ticker_init B name =
     \<lparr>symbol = str_lower B name,
      ws_url = ''wss://stream.binance.com:9443/ws/'' @ str_lower B name @ ''@ticker'',
      ws = None, is_connected = False,
      on_message_callback = None, on_error_callback = None,
      is_disconnecting = False, reconnect_attempts = 0, max_reconnect_attempts = 5,
      last_data = None\<rparr>"

text \<open>The dictionary \<^verbatim>\<open>_on_message\<close> builds, field by field in the source's order.\<close>

definition ticker_data :: "'f builtins \<Rightarrow> 'f json \<Rightarrow> 'f ticker option" where
  "ticker_data B data = do {
     c \<leftarrow> py_get data ''c'' (JInt 0); c' \<leftarrow> py_float B c;
     h \<leftarrow> py_get data ''h'' (JInt 0); h' \<leftarrow> py_float B h;
     l \<leftarrow> py_get data ''l'' (JInt 0); l' \<leftarrow> py_float B l;
     v \<leftarrow> py_get data ''v'' (JInt 0); v' \<leftarrow> py_float B v;
     q \<leftarrow> py_get data ''q'' (JInt 0); q' \<leftarrow> py_float B q;
     p \<leftarrow> py_get data ''p'' (JInt 0); p' \<leftarrow> py_float B p;
     P \<leftarrow> py_get data ''P'' (JInt 0); P' \<leftarrow> py_float B P;
     E \<leftarrow> py_get data ''E'' (JInt 0); E' \<leftarrow> py_int B E;
     Some \<lparr>price = c', high = h', low = l', volume = v', quote_volume = q',
           price_change = p', price_change_percent = P', timestamp = E'\<rparr>
   }"

text \<open>
  \<^verbatim>\<open>_on_message\<close>. The message is what \<^verbatim>\<open>json.loads\<close> makes of the payload:
  \<open>None\<close> when it raises \<^verbatim>\<open>JSONDecodeError\<close>.
\<close>

definition ticker_on_message ::
  "'f builtins \<Rightarrow> 'f json option \<Rightarrow> 'f ticker_client \<Rightarrow> 'f ticker_client \<times> 'f ticker effect list" where
  "ticker_on_message B message s =
     (case message of
        None \<Rightarrow> (s, [Log ERROR])
      | Some data \<Rightarrow>
          (case ticker_data B data of
             None \<Rightarrow> (s, [Log ERROR])
           | Some d \<Rightarrow>
               (s\<lparr>last_data := Some d\<rparr>,
                (case on_message_callback s of None \<Rightarrow> [] | Some cb \<Rightarrow> [MessageCallback cb d])
                @ [Log DEBUG])))"

section \<open>Depth client\<close>

record 'f depth_data =
  bids :: "('f \<times> 'f) list"
  asks :: "('f \<times> 'f) list"
  timestamp :: int

record 'f depth_client = "'f depth_data data_client" +
  depth :: int

definition depth_init :: "'f builtins \<Rightarrow> string \<Rightarrow> int \<Rightarrow> 'f depth_client" where
  "depth_init B name n =
     \<lparr>symbol = str_lower B name,
      ws_url = ''wss://stream.binance.com:9443/ws/'' @ str_lower B name @ ''@depth''
               @ str_of_int B n @ ''@100ms'',
      ws = None, is_connected = False,
      on_message_callback = None, on_error_callback = None,
      is_disconnecting = False, reconnect_attempts = 0, max_reconnect_attempts = 5,
      last_data = None, depth = n\<rparr>"

text \<open>
  One entry of a side, \<^verbatim>\<open>[float(bid[0]), float(bid[1])]\<close>, and the comprehension
  over \<^verbatim>\<open>data.get(key, [])[:self.depth]\<close>: the first entry that fails to convert
  raises and no list is built.
\<close>

definition level_pair :: "'f builtins \<Rightarrow> 'f json \<Rightarrow> ('f \<times> 'f) option" where
  "level_pair B entry = do {
     p \<leftarrow> py_index entry 0; p' \<leftarrow> py_float B p;
     q \<leftarrow> py_index entry 1; q' \<leftarrow> py_float B q;
     Some (p', q')
   }"

definition depth_side :: "'f builtins \<Rightarrow> int \<Rightarrow> 'f json \<Rightarrow> string \<Rightarrow> ('f \<times> 'f) list option" where
  "depth_side B n data key = do {
     side \<leftarrow> py_get data key (JArr []);
     cut \<leftarrow> py_slice_to side n;
     entries \<leftarrow> py_iter cut;
     those (map (level_pair B) entries)
   }"

definition depth_snapshot :: "'f builtins \<Rightarrow> int \<Rightarrow> 'f json \<Rightarrow> 'f depth_data option" where
  "depth_snapshot B n data = do {
     bs \<leftarrow> depth_side B n data ''bids'';
     as \<leftarrow> depth_side B n data ''asks'';
     E \<leftarrow> py_get data ''E'' (JInt 0); E' \<leftarrow> py_int B E;
     Some \<lparr>bids = bs, asks = as, timestamp = E'\<rparr>
   }"

definition depth_on_message ::
  "'f builtins \<Rightarrow> 'f json option \<Rightarrow> 'f depth_client \<Rightarrow> 'f depth_client \<times> 'f depth_data effect list" where
  "depth_on_message B message s =
     (case message of
        None \<Rightarrow> (s, [Log ERROR])
      | Some data \<Rightarrow>
          (case depth_snapshot B (depth s) data of
             None \<Rightarrow> (s, [Log ERROR])
           | Some d \<Rightarrow>
               (s\<lparr>last_data := Some d\<rparr>,
                (case on_message_callback s of None \<Rightarrow> [] | Some cb \<Rightarrow> [MessageCallback cb d]))))"

section \<open>Trades client\<close>

datatype side = BUY | SELL

record 'f trade =
  price :: 'f
  qty :: 'f
  side :: side
  time :: "'f json"

record 'f trades_client = conn +
  is_running :: bool
  trades :: "'f trade list"
  max_trades :: nat

definition trades_init :: "'f builtins \<Rightarrow> string \<Rightarrow> 'f trades_client" where
  "trades_init B name =
     \<lparr>symbol = str_lower B name,
      ws_url = ''wss://stream.binance.com:9443/ws/'' @ str_lower B name @ ''@aggTrade'',
      ws = None, is_connected = False,
      on_message_callback = None, on_error_callback = None,
      is_running = True, trades = [], max_trades = 50\<rparr>"

definition trade_data :: "'f builtins \<Rightarrow> 'f json \<Rightarrow> 'f trade option" where
  "trade_data B data = do {
     p \<leftarrow> py_get data ''p'' (JInt 0); p' \<leftarrow> py_float B p;
     q \<leftarrow> py_get data ''q'' (JInt 0); q' \<leftarrow> py_float B q;
     m \<leftarrow> py_get data ''m'' (JBool False);
     T \<leftarrow> py_get data ''T'' (JInt 0);
     Some \<lparr>price = p', qty = q', side = (if \<not> py_truth B m then BUY else SELL), time = T\<rparr>
   }"

text \<open>
  \<^verbatim>\<open>_on_message\<close>: the callback receives \<^verbatim>\<open>{"trades": self.trades}\<close> and the
  symbol.
\<close>

definition trades_on_message ::
  "'f builtins \<Rightarrow> 'f json option \<Rightarrow> 'f trades_client
     \<Rightarrow> 'f trades_client \<times> ('f trade list \<times> string) effect list" where
  "trades_on_message B message s =
     (if \<not> is_running s then (s, [])
      else
        (case message of
           None \<Rightarrow> (s, [Log DEBUG])
         | Some data \<Rightarrow>
             (case trade_data B data of
                None \<Rightarrow> (s, [Log DEBUG])
              | Some trade \<Rightarrow>
                  (let inserted = trade # trades s;
                       kept = (if length inserted > max_trades s
                               then take (max_trades s) inserted else inserted)
                   in (s\<lparr>trades := kept\<rparr>,
                       (case on_message_callback s of
                          None \<Rightarrow> []
                        | Some cb \<Rightarrow> [MessageCallback cb (kept, symbol s)]))))))"

definition trades_on_error ::
  "string \<Rightarrow> 'f trades_client \<Rightarrow> 'f trades_client \<times> ('f trade list \<times> string) effect list" where
  "trades_on_error err s =
     (s\<lparr>is_connected := False\<rparr>,
      Log ERROR #
      (case on_error_callback s of None \<Rightarrow> [] | Some cb \<Rightarrow> [ErrorCallback cb [err, symbol s]]))"

definition trades_on_close ::
  "'f trades_client \<Rightarrow> 'f trades_client \<times> ('f trade list \<times> string) effect list" where
  "trades_on_close s = (s\<lparr>is_connected := False\<rparr>, [Log WARNING])"

text \<open>
  \<^verbatim>\<open>connect\<close>: after starting the thread it polls the socket for three seconds; the
  flag says whether the socket came up within them.
\<close>

definition trades_connect ::
  "spawn \<Rightarrow> bool \<Rightarrow> 'f trades_client \<Rightarrow> 'f trades_client \<times> ('f trade list \<times> string) effect list" where
  "trades_connect sp up s =
     (case sp of
        AppRaises \<Rightarrow> (s, [Log ERROR])
      | ThreadRaises \<Rightarrow> (s\<lparr>ws := Some (WebSocketApp (ws_url s))\<rparr>, [Log ERROR])
      | Spawned \<Rightarrow>
          (if up
           then (s\<lparr>ws := Some (WebSocketApp (ws_url s)), is_connected := True\<rparr>,
                 [RunForever (WebSocketApp (ws_url s)), Log INFO])
           else (s\<lparr>ws := Some (WebSocketApp (ws_url s))\<rparr>,
                 [RunForever (WebSocketApp (ws_url s))])))"

text \<open>
  \<^verbatim>\<open>disconnect\<close>: the whole body after the first assignment is one \<^verbatim>\<open>try\<close>, so
  when \<^verbatim>\<open>self.ws.close()\<close> raises nothing is cleared.
\<close>

definition trades_disconnect ::
  "bool \<Rightarrow> 'f trades_client \<Rightarrow> 'f trades_client \<times> ('f trade list \<times> string) effect list" where
  "trades_disconnect close_raises s =
     (let s1 = s\<lparr>is_running := False\<rparr>;
          cleared = s1\<lparr>on_message_callback := None, on_error_callback := None, trades := []\<rparr>
      in (case ws s1 of
            None \<Rightarrow> (cleared, [Log INFO])
          | Some w \<Rightarrow>
              (if close_raises then (s1, [Log INFO, WsClose w, Log WARNING])
               else (cleared, [Log INFO, WsClose w, Log INFO, Log INFO]))))"

datatype 'f trades_event =
    TSetOnMessage callback
  | TSetOnError callback
  | TConnect spawn bool
  | TMessage "'f json option"
  | TFailed string
  | TClosed
  | TDisconnect bool

definition trades_handle ::
  "'f builtins \<Rightarrow> 'f trades_event \<Rightarrow> 'f trades_client
     \<Rightarrow> 'f trades_client \<times> ('f trade list \<times> string) effect list" where
  "trades_handle B e s =
     (case e of
        TSetOnMessage cb \<Rightarrow> (set_on_message_callback cb s, [])
      | TSetOnError cb \<Rightarrow> (set_on_error_callback cb s, [])
      | TConnect sp up \<Rightarrow> trades_connect sp up s
      | TMessage m \<Rightarrow> trades_on_message B m s
      | TFailed err \<Rightarrow> trades_on_error err s
      | TClosed \<Rightarrow> trades_on_close s
      | TDisconnect r \<Rightarrow> trades_disconnect r s)"

fun trades_run ::
  "'f builtins \<Rightarrow> 'f trades_client \<Rightarrow> 'f trades_event list
     \<Rightarrow> 'f trades_client \<times> ('f trade list \<times> string) effect list" where
  "trades_run B s [] = (s, [])"
| "trades_run B s (e # es) =
     (let (s1, out1) = trades_handle B e s; (s2, out2) = trades_run B s1 es
      in (s2, out1 @ out2))"

section \<open>Kline client\<close>

record 'f kline =
  "open" :: 'f
  high :: 'f
  low :: 'f
  close :: 'f
  volume :: 'f
  time :: int
  is_closed :: "'f json"

record 'f kline_client = "'f kline data_client" +
  interval :: string
  klines :: "'f kline list"

definition kline_init :: "'f builtins \<Rightarrow> string \<Rightarrow> string \<Rightarrow> 'f kline_client" where
  "kline_init B name iv =
     \<lparr>symbol = str_lower B name,
      ws_url = ''wss://stream.binance.com:9443/ws/'' @ str_lower B name @ ''@kline_'' @ iv,
      ws = None, is_connected = False,
      on_message_callback = None, on_error_callback = None,
      is_disconnecting = False, reconnect_attempts = 0, max_reconnect_attempts = 5,
      last_data = None, interval = iv, klines = []\<rparr>"

text \<open>One row of the REST answer: indices 1, 2, 3, 4, 7 and 0, in the source's order.\<close>

definition historical_kline :: "'f builtins \<Rightarrow> 'f json \<Rightarrow> 'f kline option" where
  "historical_kline B k = do {
     o1 \<leftarrow> py_index k 1; o' \<leftarrow> py_float B o1;
     h \<leftarrow> py_index k 2; h' \<leftarrow> py_float B h;
     l \<leftarrow> py_index k 3; l' \<leftarrow> py_float B l;
     c \<leftarrow> py_index k 4; c' \<leftarrow> py_float B c;
     v \<leftarrow> py_index k 7; v' \<leftarrow> py_float B v;
     t \<leftarrow> py_index k 0; t' \<leftarrow> py_int B t;
     Some \<lparr>open = o', high = h', low = l', close = c', volume = v', time = t',
           is_closed = JBool True\<rparr>
   }"

text \<open>
  The loop \<^verbatim>\<open>for k in data\<close> of \<^verbatim>\<open>_fetch_historical_klines\<close>: each row is
  appended as soon as it is converted, so a row that raises leaves the rows before it
  in the series. The flag says whether the loop ran to its end.
\<close>

fun load_klines :: "'f builtins \<Rightarrow> 'f kline list \<Rightarrow> 'f json list \<Rightarrow> 'f kline list \<times> bool" where
  "load_klines B ks [] = (ks, True)"
| "load_klines B ks (k # rest) =
     (case historical_kline B k of
        None \<Rightarrow> (ks, False)
      | Some kline \<Rightarrow> load_klines B (ks @ [kline]) rest)"

text \<open>
  \<^verbatim>\<open>_fetch_historical_klines\<close>. The answer of the REST call is an input: \<open>None\<close>
  when \<^verbatim>\<open>requests.get\<close>, \<^verbatim>\<open>raise_for_status\<close> or \<^verbatim>\<open>response.json\<close> raises,
  the decoded body otherwise.
\<close>

definition fetch_historical_klines ::
  "'f builtins \<Rightarrow> nat \<Rightarrow> 'f json option \<Rightarrow> 'f kline_client \<Rightarrow> 'f kline_client \<times> 'p effect list" where
  "fetch_historical_klines B limit response s =
     (case response of
        None \<Rightarrow> (s, [HttpGet limit, Log WARNING])
      | Some data \<Rightarrow>
          (case py_iter data of
             None \<Rightarrow> (s, [HttpGet limit, Log ERROR])
           | Some rows \<Rightarrow>
               (let (ks, done) = load_klines B (klines s) rows
                in (s\<lparr>klines := ks\<rparr>, [HttpGet limit, Log (if done then INFO else ERROR)]))))"

definition kline_connect ::
  "'f builtins \<Rightarrow> 'f json option \<Rightarrow> spawn \<Rightarrow> 'f kline_client \<Rightarrow> 'f kline_client \<times> 'p effect list" where
  "kline_connect B response sp s =
     (let (s1, es1) = fetch_historical_klines B 20 response s;
          (s2, es2) = run_ws sp s1
      in (s2, es1 @ es2 @ [Log INFO]))"

text \<open>
  \<^verbatim>\<open>_reconnect_wait\<close> of the kline client: its first part is
  \<open>reconnect_wait_sleep\<close>, its second part calls the kline client's \<^verbatim>\<open>connect\<close>.
\<close>

definition kline_reconnect_wait_connect ::
  "'f builtins \<Rightarrow> 'f json option \<Rightarrow> spawn \<Rightarrow> 'f kline_client \<Rightarrow> 'f kline_client \<times> 'p effect list" where
  "kline_reconnect_wait_connect B response sp s = kline_connect B response sp s"

text \<open>The dictionary \<^verbatim>\<open>_on_message\<close> builds from the object under the key \<^verbatim>\<open>k\<close>.\<close>

definition kline_data :: "'f builtins \<Rightarrow> 'f json \<Rightarrow> 'f kline option" where
  "kline_data B data = do {
     k \<leftarrow> py_get data ''k'' (JObj []);
     o1 \<leftarrow> py_get k ''o'' (JInt 0); o' \<leftarrow> py_float B o1;
     h \<leftarrow> py_get k ''h'' (JInt 0); h' \<leftarrow> py_float B h;
     l \<leftarrow> py_get k ''l'' (JInt 0); l' \<leftarrow> py_float B l;
     c \<leftarrow> py_get k ''c'' (JInt 0); c' \<leftarrow> py_float B c;
     v \<leftarrow> py_get k ''v'' (JInt 0); v' \<leftarrow> py_float B v;
     t \<leftarrow> py_get k ''t'' (JInt 0); t' \<leftarrow> py_int B t;
     x \<leftarrow> py_get k ''x'' (JBool False);
     Some \<lparr>open = o', high = h', low = l', close = c', volume = v', time = t',
           is_closed = x\<rparr>
   }"

text \<open>
  The update of \<^verbatim>\<open>self.klines\<close>: \<^verbatim>\<open>self.klines[-1] = kline\<close> when the last bar
  has the same open time, \<^verbatim>\<open>append\<close> and, past 100 bars, \<^verbatim>\<open>pop(0)\<close> otherwise.
\<close>

definition update_klines :: "'f kline list \<Rightarrow> 'f kline \<Rightarrow> 'f kline list" where
  "update_klines ks kline =
     (if ks \<noteq> [] \<and> time (last ks) = time kline then ks[length ks - 1 := kline]
      else (let ks' = ks @ [kline] in if length ks' > 100 then tl ks' else ks'))"

text \<open>
  \<^verbatim>\<open>_on_message\<close>: the callback receives
  \<^verbatim>\<open>{"klines": self.klines, "latest": kline}\<close>, here the pair of the two.
\<close>

definition kline_on_message ::
  "'f builtins \<Rightarrow> 'f json option \<Rightarrow> 'f kline_client
     \<Rightarrow> 'f kline_client \<times> ('f kline list \<times> 'f kline) effect list" where
  "kline_on_message B message s =
     (case message of
        None \<Rightarrow> (s, [Log ERROR])
      | Some data \<Rightarrow>
          (case kline_data B data of
             None \<Rightarrow> (s, [Log ERROR])
           | Some kline \<Rightarrow>
               (let ks = update_klines (klines s) kline
                in (s\<lparr>last_data := Some kline, klines := ks\<rparr>,
                    (case on_message_callback s of
                       None \<Rightarrow> []
                     | Some cb \<Rightarrow> [MessageCallback cb (ks, kline)])
                    @ [Log INFO]))))"

definition kline_disconnect ::
  "bool \<Rightarrow> 'f kline_client \<Rightarrow> 'f kline_client \<times> 'p effect list" where
  "kline_disconnect close_raises s =
     (let (s1, es) = disconnect close_raises s in (s1\<lparr>klines := []\<rparr>, es))"

section \<open>Runs of a client\<close>

text \<open>
  The methods of one client run on several threads; the model takes them one at a
  time, each as a whole, in the order of a list of events. An event is a call of the
  consumer (\<open>SetOnMessage\<close>, \<open>SetOnError\<close>, \<open>Connect\<close>, \<open>Disconnect\<close>), a callback
  of the connection's thread (\<open>Opened\<close>, \<open>Message\<close>, \<open>Failed\<close>, \<open>Closed\<close>) or
  a step of a reconnect thread: \<open>Begin\<close>, when a thread that was started runs up to
  its sleep, and \<open>Wake\<close>, when its sleep is over. \<open>Connect\<close> and \<open>Wake\<close> carry
  the inputs of \<^verbatim>\<open>connect\<close>. Beside the client a run keeps the number of reconnect
  threads that were started and have not run yet, and the number that are asleep: a
  \<open>Begin\<close> with no thread waiting and a \<open>Wake\<close> with none asleep do nothing.
\<close>

datatype ('f, 'c) event =
    SetOnMessage callback
  | SetOnError callback
  | Connect 'c
  | Opened
  | Message "'f json option"
  | Failed string
  | Closed
  | Begin
  | Wake 'c
  | Disconnect bool

fun is_begin :: "('f, 'c) event \<Rightarrow> bool" where
  "is_begin Begin = True"
| "is_begin e = False"

fun is_wake :: "('f, 'c) event \<Rightarrow> bool" where
  "is_wake (Wake c) = True"
| "is_wake e = False"

fun started :: "'p effect list \<Rightarrow> nat" where
  "started [] = 0"
| "started (StartReconnect # es) = Suc (started es)"
| "started (e # es) = started es"

record 's world =
  state :: 's
  waiting :: nat
  sleeping :: nat

definition step ::
  "(('f, 'c) event \<Rightarrow> 's \<Rightarrow> 's \<times> 'p effect list) \<Rightarrow> ('f, 'c) event \<Rightarrow> 's world
     \<Rightarrow> 's world \<times> 'p effect list" where
  "step handle e w =
     (if is_begin e \<and> waiting w = 0 then (w, [])
      else if is_wake e \<and> sleeping w = 0 then (w, [])
      else
        (let (s', es) = handle e (state w)
         in (\<lparr>state = s',
              waiting = waiting w - (if is_begin e then 1 else 0) + started es,
              sleeping = sleeping w + (if is_begin e then 1 else 0)
                         - (if is_wake e then 1 else 0)\<rparr>, es)))"

fun run ::
  "(('f, 'c) event \<Rightarrow> 's \<Rightarrow> 's \<times> 'p effect list) \<Rightarrow> 's world \<Rightarrow> ('f, 'c) event list
     \<Rightarrow> 's world \<times> 'p effect list" where
  "run handle w [] = (w, [])"
| "run handle w (e # es) =
     (let (w1, out1) = step handle e w; (w2, out2) = run handle w1 es
      in (w2, out1 @ out2))"

definition ticker_handle ::
  "'f builtins \<Rightarrow> ('f, spawn) event \<Rightarrow> 'f ticker_client
     \<Rightarrow> 'f ticker_client \<times> 'f ticker effect list" where
  "ticker_handle B e s =
     (case e of
        SetOnMessage cb \<Rightarrow> (set_on_message_callback cb s, [])
      | SetOnError cb \<Rightarrow> (set_on_error_callback cb s, [])
      | Connect sp \<Rightarrow> connect sp s
      | Opened \<Rightarrow> on_open s
      | Message m \<Rightarrow> ticker_on_message B m s
      | Failed err \<Rightarrow> on_error err s
      | Closed \<Rightarrow> on_close s
      | Begin \<Rightarrow> reconnect_wait_sleep s
      | Wake sp \<Rightarrow> reconnect_wait_connect sp s
      | Disconnect r \<Rightarrow> disconnect r s)"

definition kline_handle ::
  "'f builtins \<Rightarrow> ('f, 'f json option \<times> spawn) event \<Rightarrow> 'f kline_client
     \<Rightarrow> 'f kline_client \<times> ('f kline list \<times> 'f kline) effect list" where
  "kline_handle B e s =
     (case e of
        SetOnMessage cb \<Rightarrow> (set_on_message_callback cb s, [])
      | SetOnError cb \<Rightarrow> (set_on_error_callback cb s, [])
      | Connect c \<Rightarrow> kline_connect B (fst c) (snd c) s
      | Opened \<Rightarrow> on_open s
      | Message m \<Rightarrow> kline_on_message B m s
      | Failed err \<Rightarrow> on_error err s
      | Closed \<Rightarrow> on_close s
      | Begin \<Rightarrow> reconnect_wait_sleep s
      | Wake c \<Rightarrow> kline_reconnect_wait_connect B (fst c) (snd c) s
      | Disconnect r \<Rightarrow> kline_disconnect r s)"

section \<open>A reference instance of the built-ins\<close>

text \<open>
  To run the model on concrete messages the built-ins are instantiated with exact
  decimals: a float is a pair \<open>(m, k)\<close> standing for \<open>m / 10 ^ k\<close>, and a numeric
  string is an optional minus sign, digits and an optional fraction. Python accepts
  more literals than these; the instance is only ever applied to literals of this
  form.
\<close>

definition digit :: "char \<Rightarrow> int option" where
  "digit c = (let n = (of_char c :: int) in if 48 \<le> n \<and> n \<le> 57 then Some (n - 48) else None)"

fun digits :: "string \<Rightarrow> int \<Rightarrow> int option" where
  "digits [] acc = Some acc"
| "digits (c # cs) acc = (case digit c of None \<Rightarrow> None | Some d \<Rightarrow> digits cs (10 * acc + d))"

definition unsigned :: "string \<Rightarrow> bool \<times> string" where
  "unsigned s = (case s of [] \<Rightarrow> (False, []) | c # cs \<Rightarrow> if c = CHR ''-'' then (True, cs) else (False, s))"

definition decimal_of_str :: "string \<Rightarrow> (int \<times> nat) option" where
  "decimal_of_str s =
     (let (neg, body) = unsigned s;
          whole = takeWhile (\<lambda>c. c \<noteq> CHR ''.'') body;
          frac = drop (Suc (length whole)) body
      in if whole = [] \<or> (frac = [] \<and> whole \<noteq> body) then None
         else map_option (\<lambda>n. (if neg then - n else n, length frac))
                (digits (whole @ frac) 0))"

definition integer_of_str :: "string \<Rightarrow> int option" where
  "integer_of_str s =
     (let (neg, body) = unsigned s
      in if body = [] then None
         else map_option (\<lambda>n. if neg then - n else n) (digits body 0))"

fun str_of_nat :: "nat \<Rightarrow> string" where
  "str_of_nat n =
     (if n < 10 then [char_of (48 + n)] else str_of_nat (n div 10) @ [char_of (48 + n mod 10)])"

declare str_of_nat.simps [simp del]

definition decimal_builtins :: "(int \<times> nat) builtins" where
  "decimal_builtins =
     \<lparr>float_of_int = (\<lambda>i. (i, 0)),
      float_of_str = decimal_of_str,
      int_of_float = (\<lambda>x. Some (sgn (fst x) * (\<bar>fst x\<bar> div 10 ^ snd x))),
      int_of_str = integer_of_str,
      float_truth = (\<lambda>x. fst x \<noteq> 0),
      str_lower = map (\<lambda>c. if 65 \<le> (of_char c :: nat) \<and> (of_char c :: nat) \<le> 90
                             then char_of ((of_char c :: nat) + 32) else c),
      str_of_int = (\<lambda>i. if i < 0 then CHR ''-'' # str_of_nat (nat (- i)) else str_of_nat (nat i))\<rparr>"

section \<open>Notions the properties are stated with\<close>

text \<open>
  What the reconnect threads of a client with at most \<open>m\<close> attempts may log and
  sleep: a logged attempt is between 1 and \<open>m\<close> with the wait of its number, a
  sleep is the wait of a counter value up to \<open>m\<close>.
\<close>

definition within :: "nat \<Rightarrow> 'p effect \<Rightarrow> bool" where
  "within m e =
     (case e of
        Reconnecting w n \<Rightarrow> 1 \<le> n \<and> n \<le> m \<and> w = min (2 ^ n) 60
      | Sleep w \<Rightarrow> w \<in> (\<lambda>n. min (2 ^ n) 60) ` {..m}
      | _ \<Rightarrow> True)"

text \<open>
  The bars one seed fetch appends to the series: the rows of the answer converted in
  order, up to the first row that raises.
\<close>

definition seed_bars :: "'f builtins \<Rightarrow> 'f json option \<Rightarrow> 'f kline list" where
  "seed_bars B response =
     (case response of
        None \<Rightarrow> []
      | Some data \<Rightarrow> (case py_iter data of None \<Rightarrow> [] | Some rows \<Rightarrow> fst (load_klines B [] rows)))"

text \<open>A series in strictly ascending order of open time.\<close>

definition ascending :: "'f kline list \<Rightarrow> bool" where
  "ascending ks = sorted_wrt (<) (map time ks)"

text \<open>New bars that are ascending and start after the last bar held.\<close>

definition follows :: "'f kline list \<Rightarrow> 'f kline list \<Rightarrow> bool" where
  "follows ks new = (ascending new \<and> (ks = [] \<or> new = [] \<or> time (last ks) < time (hd new)))"

text \<open>
  An event of the kline client arrives in order when the bar of a live message does
  not open before the last bar held, and the bars of a seed fetch follow the series.
\<close>

definition in_order ::
  "'f builtins \<Rightarrow> ('f, 'f json option \<times> spawn) event \<Rightarrow> 'f kline_client world \<Rightarrow> bool" where
  "in_order B e w =
     (case e of
        Message m \<Rightarrow>
          (case m of
             None \<Rightarrow> True
           | Some d \<Rightarrow>
               (case kline_data B d of
                  None \<Rightarrow> True
                | Some k \<Rightarrow> klines (state w) = [] \<or> time (last (klines (state w))) \<le> time k))
      | Connect c \<Rightarrow> follows (klines (state w)) (seed_bars B (fst c))
      | Wake c \<Rightarrow> sleeping w = 0 \<or> follows (klines (state w)) (seed_bars B (fst c))
      | _ \<Rightarrow> True)"

fun ordered ::
  "'f builtins \<Rightarrow> 'f kline_client world \<Rightarrow> ('f, 'f json option \<times> spawn) event list \<Rightarrow> bool" where
  "ordered B w [] = True"
| "ordered B w (e # es) = (in_order B e w \<and> ordered B (fst (step (kline_handle B) e w)) es)"

text \<open>
  What makes a message malformed for a normalizer: the payload does not decode, it is
  not an object, or a field the normalizer converts is present and does not convert.
  For the depth client the fields are the levels of each side within the configured
  depth.
\<close>

definition not_object :: "'f json \<Rightarrow> bool" where
  "not_object d = (case d of JObj kvs \<Rightarrow> False | _ \<Rightarrow> True)"

definition bad_field :: "('f json \<Rightarrow> 'a option) \<Rightarrow> 'f json \<Rightarrow> string \<Rightarrow> bool" where
  "bad_field conv d key =
     (case d of
        JObj kvs \<Rightarrow> (case map_of kvs key of None \<Rightarrow> False | Some v \<Rightarrow> conv v = None)
      | _ \<Rightarrow> False)"

definition bad_side :: "'f builtins \<Rightarrow> int \<Rightarrow> 'f json \<Rightarrow> string \<Rightarrow> bool" where
  "bad_side B n d key =
     (case d of
        JObj kvs \<Rightarrow>
          (case map_of kvs key of
             None \<Rightarrow> False
           | Some v \<Rightarrow>
               (case Option.bind (py_slice_to v n) py_iter of
                  None \<Rightarrow> True
                | Some entries \<Rightarrow> \<exists>x \<in> set entries. level_pair B x = None))
      | _ \<Rightarrow> False)"

definition ticker_malformed :: "'f builtins \<Rightarrow> 'f json option \<Rightarrow> bool" where
  "ticker_malformed B message =
     (case message of
        None \<Rightarrow> True
      | Some d \<Rightarrow>
          not_object d
          \<or> (\<exists>key \<in> set [''c'', ''h'', ''l'', ''v'', ''q'', ''p'', ''P'']. bad_field (py_float B) d key)
          \<or> bad_field (py_int B) d ''E'')"

definition depth_malformed :: "'f builtins \<Rightarrow> int \<Rightarrow> 'f json option \<Rightarrow> bool" where
  "depth_malformed B n message =
     (case message of
        None \<Rightarrow> True
      | Some d \<Rightarrow>
          not_object d
          \<or> (\<exists>key \<in> set [''bids'', ''asks'']. bad_side B n d key)
          \<or> bad_field (py_int B) d ''E'')"

definition kline_malformed :: "'f builtins \<Rightarrow> 'f json option \<Rightarrow> bool" where
  "kline_malformed B message =
     (case message of
        None \<Rightarrow> True
      | Some d \<Rightarrow>
          (case py_get d ''k'' (JObj []) of
             None \<Rightarrow> True
           | Some k \<Rightarrow>
               not_object k
               \<or> (\<exists>key \<in> set [''o'', ''h'', ''l'', ''c'', ''v'']. bad_field (py_float B) k key)
               \<or> bad_field (py_int B) k ''t''))"

definition trade_malformed :: "'f builtins \<Rightarrow> 'f json option \<Rightarrow> bool" where
  "trade_malformed B message =
     (case message of
        None \<Rightarrow> True
      | Some d \<Rightarrow>
          not_object d \<or> (\<exists>key \<in> set [''p'', ''q'']. bad_field (py_float B) d key))"

text \<open>The trade a message carries, when it is well-formed.\<close>

definition trade_of :: "'f builtins \<Rightarrow> 'f json option \<Rightarrow> 'f trade option" where
  "trade_of B message = Option.bind message (trade_data B)"

text \<open>The entries of the incoming array of a side, before any truncation.\<close>

definition incoming :: "'f json \<Rightarrow> string \<Rightarrow> 'f json list option" where
  "incoming d key = Option.bind (py_get d key (JArr [])) py_iter"

section \<open>Concrete clients and messages\<close>

definition ticker_start :: "(int \<times> nat) ticker_client world" where
  "ticker_start =
     \<lparr>state = ticker_init decimal_builtins ''BTCUSDT'', waiting = 0, sleeping = 0\<rparr>"

definition kline_start :: "(int \<times> nat) kline_client world" where
  "kline_start =
     \<lparr>state = kline_init decimal_builtins ''BTCUSDT'' ''1m'', waiting = 0, sleeping = 0\<rparr>"

text \<open>A row of the REST answer and a live kline message, for the open time given.\<close>

definition seed_row :: "int \<Rightarrow> (int \<times> nat) json" where
  "seed_row t = JArr [JInt t, JStr ''1'', JStr ''2'', JStr ''0.5'', JStr ''1.5'', JStr ''10'',
                      JInt (t + 59999), JStr ''15'']"

definition live_kline :: "int \<Rightarrow> string \<Rightarrow> (int \<times> nat) json" where
  "live_kline t c =
     JObj [(''k'', JObj [(''t'', JInt t), (''o'', JStr ''1''), (''h'', JStr ''2''),
                         (''l'', JStr ''0.5''), (''c'', JStr c), (''v'', JStr ''10''),
                         (''x'', JBool False)])]"

text \<open>
  The answer to a seed fetch with the default limit, twenty one-minute bars from the
  minute given, and the live messages of consecutive minutes.
\<close>

definition seed_at :: "int \<Rightarrow> (int \<times> nat) json option" where
  "seed_at m = Some (JArr (map (\<lambda>i. seed_row (60000 * (m + int i))) [0..<20]))"

definition live_minutes ::
  "int \<Rightarrow> nat \<Rightarrow> (int \<times> nat, (int \<times> nat) json option \<times> spawn) event list" where
  "live_minutes m k = map (\<lambda>i. Message (Some (live_kline (60000 * (m + int i)) ''1.7''))) [0..<k]"

text \<open>A depth client of depth 5 and a depth message with seven bids and two asks.\<close>

definition depth_start :: "(int \<times> nat) depth_client" where
  "depth_start = depth_init decimal_builtins ''BTCUSDT'' 5"

definition depth_message :: "(int \<times> nat) json" where
  "depth_message =
     JObj [(''E'', JInt 1700000000000),
           (''bids'', JArr (map (\<lambda>p. JArr [JStr p, JStr ''0.5''])
                        [''65000.12'', ''65000.11'', ''65000.10'', ''65000.09'', ''65000.08'',
                         ''65000.07'', ''65000.06''])),
           (''asks'', JArr [JArr [JStr ''65000.13'', JStr ''1.25''],
                            JArr [JStr ''65000.14'', JStr ''2'']])]"

text \<open>The ticker message of the specification's example scenario.\<close>

definition ticker_message :: "(int \<times> nat) json" where
  "ticker_message =
     JObj [(''c'', JStr ''65000.12''), (''h'', JStr ''66000''), (''l'', JStr ''64000''),
           (''v'', JStr ''120.5''), (''q'', JStr ''7890000''), (''p'', JStr ''500''),
           (''P'', JStr ''0.77''), (''E'', JInt 1700000000000)]"

definition trades_start :: "(int \<times> nat) trades_client" where
  "trades_start = trades_init decimal_builtins ''BTCUSDT''"

definition trade_message :: "int \<Rightarrow> (int \<times> nat) json" where
  "trade_message T =
     JObj [(''p'', JStr ''65000.12''), (''q'', JStr ''0.5''), (''m'', JBool True), (''T'', JInt T)]"

section \<open>Reconnection\<close>

lemma attempt_reconnect_effects:
  assumes "attempt_reconnect s = (s', es)"
  shows "max_reconnect_attempts s' = max_reconnect_attempts s"
    and "reconnect_attempts s \<le> max_reconnect_attempts s \<Longrightarrow>
         reconnect_attempts s' \<le> max_reconnect_attempts s"
    and "e \<in> set es \<Longrightarrow> within (max_reconnect_attempts s) e"
  using assms by (auto simp: attempt_reconnect_def within_def Let_def split: if_splits)

lemma connect_effects:
  assumes "connect sp s = (s', es)"
  shows "max_reconnect_attempts s' = max_reconnect_attempts s"
    and "reconnect_attempts s \<le> max_reconnect_attempts s \<Longrightarrow>
         reconnect_attempts s' \<le> max_reconnect_attempts s"
    and "e \<in> set es \<Longrightarrow> within (max_reconnect_attempts s) e"
  using assms
  by (auto simp: connect_def run_ws_def attempt_reconnect_def within_def Let_def
      split: if_splits spawn.splits)

lemma on_close_effects:
  assumes "on_close s = (s', es)"
  shows "max_reconnect_attempts s' = max_reconnect_attempts s"
    and "reconnect_attempts s \<le> max_reconnect_attempts s \<Longrightarrow>
         reconnect_attempts s' \<le> max_reconnect_attempts s"
    and "e \<in> set es \<Longrightarrow> within (max_reconnect_attempts s) e"
  using assms
  by (auto simp: on_close_def attempt_reconnect_def within_def Let_def split: if_splits)

lemma reconnect_wait_sleep_effects:
  assumes "reconnect_wait_sleep s = (s', es)"
    and "reconnect_attempts s \<le> max_reconnect_attempts s"
  shows "s' = s"
    and "e \<in> set es \<Longrightarrow> within (max_reconnect_attempts s) e"
  using assms by (auto simp: reconnect_wait_sleep_def within_def Let_def)

lemma ticker_on_message_effects:
  assumes "ticker_on_message B m s = (s', es)"
  shows "max_reconnect_attempts s' = max_reconnect_attempts s"
    and "reconnect_attempts s' = reconnect_attempts s"
    and "e \<in> set es \<Longrightarrow> within k e"
  using assms
  by (auto simp: ticker_on_message_def within_def split: option.splits)

lemma ticker_handle_effects:
  assumes "ticker_handle B ev s = (s', es)"
    and "reconnect_attempts s \<le> max_reconnect_attempts s"
  shows "max_reconnect_attempts s' = max_reconnect_attempts s"
    and "reconnect_attempts s' \<le> max_reconnect_attempts s"
    and "e \<in> set es \<Longrightarrow> within (max_reconnect_attempts s) e"
proof -
  show "max_reconnect_attempts s' = max_reconnect_attempts s"
    using assms
    by (cases ev)
       (auto simp: ticker_handle_def set_on_message_callback_def set_on_error_callback_def
          on_open_def on_error_def reconnect_wait_connect_def disconnect_def Let_def
          dest: connect_effects(1) on_close_effects(1) ticker_on_message_effects(1)
            reconnect_wait_sleep_effects(1))
  show "reconnect_attempts s' \<le> max_reconnect_attempts s"
    using assms
    by (cases ev)
       (auto simp: ticker_handle_def set_on_message_callback_def set_on_error_callback_def
          on_open_def on_error_def reconnect_wait_connect_def disconnect_def Let_def
          dest: connect_effects(2) on_close_effects(2) ticker_on_message_effects(2)
            reconnect_wait_sleep_effects(1))
  show "within (max_reconnect_attempts s) e" if "e \<in> set es"
  proof (cases ev)
    case (Connect sp)
    then show ?thesis using assms that by (auto simp: ticker_handle_def dest: connect_effects(3))
  next
    case (Wake sp)
    then show ?thesis
      using assms that
      by (auto simp: ticker_handle_def reconnect_wait_connect_def dest: connect_effects(3))
  next
    case Closed
    then show ?thesis using assms that by (auto simp: ticker_handle_def dest: on_close_effects(3))
  next
    case Begin
    then show ?thesis
      using assms that by (auto simp: ticker_handle_def dest: reconnect_wait_sleep_effects(2))
  next
    case (Message m)
    then show ?thesis
      using assms that by (auto simp: ticker_handle_def dest: ticker_on_message_effects(3))
  qed (use assms that in \<open>auto simp: ticker_handle_def set_on_message_callback_def
         set_on_error_callback_def on_open_def on_error_def disconnect_def Let_def within_def
         split: option.splits\<close>)
qed

lemma step_ticker_effects:
  assumes "step (ticker_handle B) ev w = (w', es)"
    and "reconnect_attempts (state w) \<le> max_reconnect_attempts (state w)"
  shows "max_reconnect_attempts (state w') = max_reconnect_attempts (state w)"
    and "reconnect_attempts (state w') \<le> max_reconnect_attempts (state w)"
    and "e \<in> set es \<Longrightarrow> within (max_reconnect_attempts (state w)) e"
  using assms
  by (auto simp: step_def Let_def split: if_splits prod.splits
      dest: ticker_handle_effects)

text \<open>
  Along a run of the ticker client the counter stays within the maximum, so whatever
  its reconnect threads log and sleep is within the schedule.
\<close>

lemma run_ticker_effects:
  assumes "reconnect_attempts (state w) \<le> max_reconnect_attempts (state w)"
    and "e \<in> set (snd (run (ticker_handle B) w evs))"
  shows "within (max_reconnect_attempts (state w)) e"
  using assms
proof (induction evs arbitrary: w)
  case Nil
  then show ?case by simp
next
  case (Cons ev evs)
  obtain w1 out1 where s: "step (ticker_handle B) ev w = (w1, out1)"
    by (cases "step (ticker_handle B) ev w")
  obtain w2 out2 where r: "run (ticker_handle B) w1 evs = (w2, out2)"
    by (cases "run (ticker_handle B) w1 evs")
  from Cons.prems(2) s r have "e \<in> set out1 \<or> e \<in> set out2"
    by simp
  then show ?case
  proof
    assume "e \<in> set out1"
    with s Cons.prems(1) show ?thesis by (simp add: step_ticker_effects(3))
  next
    assume a: "e \<in> set out2"
    have m: "max_reconnect_attempts (state w1) = max_reconnect_attempts (state w)"
      using s Cons.prems(1) by (rule step_ticker_effects(1))
    have "reconnect_attempts (state w1) \<le> max_reconnect_attempts (state w1)"
      using step_ticker_effects(2)[OF s Cons.prems(1)] m by simp
    moreover have "e \<in> set (snd (run (ticker_handle B) w1 evs))"
      using a r by simp
    ultimately show ?thesis using Cons.IH m by metis
  qed
qed

text \<open>
  C3. The wait before a reconnect is computed by \<^verbatim>\<open>_reconnect_wait\<close> from the
  attempt count \<open>n\<close> it reads: for every \<open>n > 0\<close> it sleeps exactly
  \<open>min (2 ^ n) 60\<close> seconds, a function of \<open>n\<close> alone, and leaves the client as it
  is; for the counts 1 to 5 that is 2, 4, 8, 16 and 32 seconds.
  \<^verbatim>\<open>_attempt_reconnect\<close> counts the attempt, logs this wait and starts the thread, and
  a thread that runs next sleeps the wait that was logged; at the maximum, or when
  disconnecting, it starts no thread. In every run of a client from its initial state
  each attempt logged has a number between 1 and 5 and the wait of that number, and
  each sleep is the wait of a counter value of at most 5: no sixth attempt is
  scheduled.
\<close>

theorem backoff_wait_schedule:
  "(\<forall>(s :: 'f ticker_client) n.
        0 < n \<and> reconnect_attempts s = n \<longrightarrow>
        (reconnect_wait_sleep s :: 'f ticker_client \<times> 'f ticker effect list)
          = (s, [Sleep (min (2 ^ n) 60)]))
   \<and> (\<forall>s :: 'f ticker_client.
        map (\<lambda>n. snd (reconnect_wait_sleep (s\<lparr>reconnect_attempts := n\<rparr>)
                       :: 'f ticker_client \<times> 'f ticker effect list)) [1, 2, 3, 4, 5]
          = [[Sleep 2], [Sleep 4], [Sleep 8], [Sleep 16], [Sleep 32]])
   \<and> (\<forall>s :: 'f ticker_client.
        \<not> is_disconnecting s \<and> reconnect_attempts s < max_reconnect_attempts s \<longrightarrow>
        (attempt_reconnect s :: 'f ticker_client \<times> 'f ticker effect list)
          = (s\<lparr>reconnect_attempts := reconnect_attempts s + 1\<rparr>,
             [Reconnecting (min (2 ^ (reconnect_attempts s + 1)) 60) (reconnect_attempts s + 1),
              StartReconnect])
        \<and> (reconnect_wait_sleep (s\<lparr>reconnect_attempts := reconnect_attempts s + 1\<rparr>)
              :: 'f ticker_client \<times> 'f ticker effect list)
          = (s\<lparr>reconnect_attempts := reconnect_attempts s + 1\<rparr>,
             [Sleep (min (2 ^ (reconnect_attempts s + 1)) 60)]))
   \<and> (\<forall>s :: 'f ticker_client.
        is_disconnecting s \<or> max_reconnect_attempts s \<le> reconnect_attempts s \<longrightarrow>
        fst (attempt_reconnect s :: 'f ticker_client \<times> 'f ticker effect list) = s
        \<and> StartReconnect \<notin> set (snd (attempt_reconnect s
                                        :: 'f ticker_client \<times> 'f ticker effect list)))
   \<and> (\<forall>(B :: 'f builtins) name evs w n.
        Reconnecting w n
          \<in> set (snd (run (ticker_handle B)
                       \<lparr>state = ticker_init B name, waiting = 0, sleeping = 0\<rparr> evs))
        \<longrightarrow> 1 \<le> n \<and> n \<le> 5 \<and> w = min (2 ^ n) 60)
   \<and> (\<forall>(B :: 'f builtins) name evs w.
        Sleep w
          \<in> set (snd (run (ticker_handle B)
                       \<lparr>state = ticker_init B name, waiting = 0, sleeping = 0\<rparr> evs))
        \<longrightarrow> (\<exists>n\<le>5. w = min (2 ^ n) 60))"
proof -
  have A: "\<forall>(s :: 'f ticker_client) n.
        0 < n \<and> reconnect_attempts s = n \<longrightarrow>
        (reconnect_wait_sleep s :: 'f ticker_client \<times> 'f ticker effect list)
          = (s, [Sleep (min (2 ^ n) 60)])"
    by (simp add: reconnect_wait_sleep_def)
  have B: "\<forall>s :: 'f ticker_client.
        map (\<lambda>n. snd (reconnect_wait_sleep (s\<lparr>reconnect_attempts := n\<rparr>)
                       :: 'f ticker_client \<times> 'f ticker effect list)) [1, 2, 3, 4, 5]
          = [[Sleep 2], [Sleep 4], [Sleep 8], [Sleep 16], [Sleep 32]]"
    by (simp add: reconnect_wait_sleep_def)
  have C: "\<forall>s :: 'f ticker_client.
        \<not> is_disconnecting s \<and> reconnect_attempts s < max_reconnect_attempts s \<longrightarrow>
        (attempt_reconnect s :: 'f ticker_client \<times> 'f ticker effect list)
          = (s\<lparr>reconnect_attempts := reconnect_attempts s + 1\<rparr>,
             [Reconnecting (min (2 ^ (reconnect_attempts s + 1)) 60) (reconnect_attempts s + 1),
              StartReconnect])
        \<and> (reconnect_wait_sleep (s\<lparr>reconnect_attempts := reconnect_attempts s + 1\<rparr>)
              :: 'f ticker_client \<times> 'f ticker effect list)
          = (s\<lparr>reconnect_attempts := reconnect_attempts s + 1\<rparr>,
             [Sleep (min (2 ^ (reconnect_attempts s + 1)) 60)])"
    by (simp add: attempt_reconnect_def reconnect_wait_sleep_def Let_def)
  have D: "\<forall>s :: 'f ticker_client.
        is_disconnecting s \<or> max_reconnect_attempts s \<le> reconnect_attempts s \<longrightarrow>
        fst (attempt_reconnect s :: 'f ticker_client \<times> 'f ticker effect list) = s
        \<and> StartReconnect \<notin> set (snd (attempt_reconnect s
                                        :: 'f ticker_client \<times> 'f ticker effect list))"
    by (auto simp: attempt_reconnect_def Let_def)
  have E: "\<forall>(B :: 'f builtins) name evs w n.
        Reconnecting w n
          \<in> set (snd (run (ticker_handle B)
                       \<lparr>state = ticker_init B name, waiting = 0, sleeping = 0\<rparr> evs))
        \<longrightarrow> 1 \<le> n \<and> n \<le> 5 \<and> w = min (2 ^ n) 60"
  proof (intro allI impI)
    fix B :: "'f builtins" and name evs w n
    assume "Reconnecting w n
          \<in> set (snd (run (ticker_handle B)
                       \<lparr>state = ticker_init B name, waiting = 0, sleeping = 0\<rparr> evs))"
    from run_ticker_effects[OF _ this] show "1 \<le> n \<and> n \<le> 5 \<and> w = min (2 ^ n) 60"
      by (simp add: ticker_init_def within_def)
  qed
  have F: "\<forall>(B :: 'f builtins) name evs w.
        Sleep w
          \<in> set (snd (run (ticker_handle B)
                       \<lparr>state = ticker_init B name, waiting = 0, sleeping = 0\<rparr> evs))
        \<longrightarrow> (\<exists>n\<le>5. w = min (2 ^ n) 60)"
  proof (intro allI impI)
    fix B :: "'f builtins" and name evs w
    assume "Sleep w
          \<in> set (snd (run (ticker_handle B)
                       \<lparr>state = ticker_init B name, waiting = 0, sleeping = 0\<rparr> evs))"
    from run_ticker_effects[OF _ this] have "w \<in> (\<lambda>n. min (2 ^ n) 60) ` {..5}"
      by (simp add: ticker_init_def within_def)
    then show "\<exists>n\<le>5. w = min (2 ^ n) 60" by auto
  qed
  show ?thesis
    by (intro conjI A B C D E F)
qed

theorem backoff_wait_schedule_witness:
  "snd (run (ticker_handle decimal_builtins) ticker_start
          [Connect Spawned, Closed, Begin, Wake Spawned, Closed, Begin])
     = [RunForever (WebSocketApp ''wss://stream.binance.com:9443/ws/btcusdt@ticker''), Log INFO,
        Log WARNING, Reconnecting 2 1, StartReconnect, Sleep 2,
        RunForever (WebSocketApp ''wss://stream.binance.com:9443/ws/btcusdt@ticker''), Log INFO,
        Log WARNING, Reconnecting 4 2, StartReconnect, Sleep 4]
   \<and> ((1::nat) \<le> 2 \<and> (2::nat) \<le> 5 \<and> (4::nat) = min (2 ^ 2) 60)
   \<and> (\<exists>n\<le>5. (4::nat) = min (2 ^ n) 60)
   \<and> (reconnect_wait_sleep ((state ticker_start)\<lparr>reconnect_attempts := 3\<rparr>)
         :: (int \<times> nat) ticker_client \<times> (int \<times> nat) ticker effect list)
       = ((state ticker_start)\<lparr>reconnect_attempts := 3\<rparr>, [Sleep (min (2 ^ 3) 60)])"
proof -
  have r: "snd (run (ticker_handle decimal_builtins) ticker_start
          [Connect Spawned, Closed, Begin, Wake Spawned, Closed, Begin])
     = [RunForever (WebSocketApp ''wss://stream.binance.com:9443/ws/btcusdt@ticker''), Log INFO,
        Log WARNING, Reconnecting 2 1, StartReconnect, Sleep 2,
        RunForever (WebSocketApp ''wss://stream.binance.com:9443/ws/btcusdt@ticker''), Log INFO,
        Log WARNING, Reconnecting 4 2, StartReconnect, Sleep 4]"
    by code_simp
  note t = backoff_wait_schedule[where 'f = "int \<times> nat"]
  note sleeps = t[THEN conjunct1, rule_format]
  note logged = t[THEN conjunct2, THEN conjunct2, THEN conjunct2, THEN conjunct2,
                  THEN conjunct1, rule_format]
  note slept = t[THEN conjunct2, THEN conjunct2, THEN conjunct2, THEN conjunct2,
                 THEN conjunct2, rule_format]
  have m: "Reconnecting 4 2
             \<in> set (snd (run (ticker_handle decimal_builtins)
                   \<lparr>state = ticker_init decimal_builtins ''BTCUSDT'', waiting = 0, sleeping = 0\<rparr>
                   [Connect Spawned, Closed, Begin, Wake Spawned, Closed, Begin]))"
    and n: "Sleep 4
             \<in> set (snd (run (ticker_handle decimal_builtins)
                   \<lparr>state = ticker_init decimal_builtins ''BTCUSDT'', waiting = 0, sleeping = 0\<rparr>
                   [Connect Spawned, Closed, Begin, Wake Spawned, Closed, Begin]))"
    unfolding r[unfolded ticker_start_def] by simp_all
  have c: "reconnect_attempts ((state ticker_start)\<lparr>reconnect_attempts := 3\<rparr>) = 3"
    by simp
  have s: "(reconnect_wait_sleep ((state ticker_start)\<lparr>reconnect_attempts := 3\<rparr>)
         :: (int \<times> nat) ticker_client \<times> (int \<times> nat) ticker effect list)
       = ((state ticker_start)\<lparr>reconnect_attempts := 3\<rparr>, [Sleep (min (2 ^ 3) 60)])"
    by (rule sleeps) (use c in simp)
  from r logged[OF m] slept[OF n] s show ?thesis
    by blast
qed

text \<open>
  C2, as the code has it. When a close that is not intentional finds the attempt
  count at the maximum, \<^verbatim>\<open>_on_close\<close> marks the client as not connected and logs a
  warning and an error; it starts no reconnect thread, leaves the counter as it is
  and does not invoke the error callback.
\<close>

theorem exhausted_close_only_logs:
  fixes s :: "'a client_scheme"
  assumes "\<not> is_disconnecting s"
    and "reconnect_attempts s = max_reconnect_attempts s"
  shows "on_close s = (s\<lparr>is_connected := False\<rparr>, [Log WARNING, Log ERROR])"
  using assms by (simp add: on_close_def attempt_reconnect_def Let_def)

theorem exhausted_close_only_logs_witness:
  "(let s = (ticker_init decimal_builtins ''BTCUSDT'')
              \<lparr>on_error_callback := Some 7, reconnect_attempts := 5\<rparr>
    in is_disconnecting s = False
       \<and> reconnect_attempts s = max_reconnect_attempts s
       \<and> (on_close s :: _ \<times> (int \<times> nat) ticker effect list)
           = (s\<lparr>is_connected := False\<rparr>, [Log WARNING, Log ERROR]))"
proof -
  define s where "s = (ticker_init decimal_builtins ''BTCUSDT'')
              \<lparr>on_error_callback := Some 7, reconnect_attempts := 5\<rparr>"
  have a: "\<not> is_disconnecting s" and b: "reconnect_attempts s = max_reconnect_attempts s"
    by (simp_all add: s_def ticker_init_def)
  show ?thesis
    using exhausted_close_only_logs[OF a b] a b unfolding s_def Let_def by simp
qed

text \<open>
  The claim C2 as the specification states it fails: with an error callback
  registered, five reconnects that each end in a close bring the counter to 5, and the
  next close invokes no callback.
\<close>

theorem exhausted_close_no_error_callback:
  "(let w = fst (run (ticker_handle decimal_builtins) ticker_start
                  [SetOnError 7, Connect Spawned,
                   Closed, Begin, Wake Spawned, Closed, Begin, Wake Spawned,
                   Closed, Begin, Wake Spawned, Closed, Begin, Wake Spawned,
                   Closed, Begin, Wake Spawned])
    in on_error_callback (state w) = Some 7
       \<and> reconnect_attempts (state w) = 5
       \<and> max_reconnect_attempts (state w) = 5
       \<and> is_disconnecting (state w) = False
       \<and> snd (step (ticker_handle decimal_builtins) Closed w) = [Log WARNING, Log ERROR])"
  by code_simp

text \<open>
  C1 fails on the code. A close starts a reconnect thread; \<^verbatim>\<open>disconnect\<close> returns
  while the thread sleeps; when the thread wakes, \<^verbatim>\<open>_reconnect_wait\<close> calls
  \<^verbatim>\<open>connect\<close> without reading \<^verbatim>\<open>is_disconnecting\<close>, and a connection is spawned
  for the client that was disconnected.
\<close>

theorem stale_reconnect_after_disconnect:
  "(let w = fst (run (ticker_handle decimal_builtins) ticker_start
                  [Connect Spawned, Opened, Closed, Begin, Disconnect False])
    in is_disconnecting (state w) = True
       \<and> sleeping w = 1
       \<and> snd (step (ticker_handle decimal_builtins) (Wake Spawned) w)
           = [RunForever (WebSocketApp ''wss://stream.binance.com:9443/ws/btcusdt@ticker''),
              Log INFO])"
  by code_simp

section \<open>Kline series\<close>

lemma load_klines_append:
  "fst (load_klines B ks rows) = ks @ fst (load_klines B [] rows)"
proof (induction rows arbitrary: ks)
  case Nil
  then show ?case by simp
next
  case (Cons r rows)
  show ?case
  proof (cases "historical_kline B r")
    case None
    then show ?thesis by simp
  next
    case (Some k)
    have "fst (load_klines B (ks @ [k]) rows) = (ks @ [k]) @ fst (load_klines B [] rows)"
      by (rule Cons.IH)
    moreover have "fst (load_klines B [k] rows) = [k] @ fst (load_klines B [] rows)"
      using Cons.IH[of "[k]"] by simp
    ultimately show ?thesis using Some by simp
  qed
qed

lemma fetch_state:
  "fst (fetch_historical_klines B limit response s :: 'f kline_client \<times> 'p effect list)
     = s\<lparr>klines := klines s @ seed_bars B response\<rparr>"
  by (simp add: fetch_historical_klines_def seed_bars_def Let_def case_prod_beta
      load_klines_append[of B "klines s"] split: option.splits)

lemma attempt_reconnect_klines:
  "klines (fst (attempt_reconnect s :: 'f kline_client \<times> 'p effect list)) = klines s"
  by (simp add: attempt_reconnect_def Let_def)

lemma run_ws_klines:
  "klines (fst (run_ws sp s :: 'f kline_client \<times> 'p effect list)) = klines s"
  by (simp add: run_ws_def attempt_reconnect_def Let_def split: spawn.splits)

lemma kline_connect_klines:
  "klines (fst (kline_connect B response sp s :: 'f kline_client \<times> 'p effect list))
     = klines s @ seed_bars B response"
proof -
  have "klines (fst (kline_connect B response sp s :: 'f kline_client \<times> 'p effect list))
      = klines (fst (fetch_historical_klines B 20 response s :: 'f kline_client \<times> 'p effect list))"
    by (simp add: kline_connect_def case_prod_beta Let_def run_ws_klines)
  then show ?thesis by (simp add: fetch_state)
qed

lemma kline_on_message_klines:
  "klines (fst (kline_on_message B m s)) =
     (case m of None \<Rightarrow> klines s
      | Some d \<Rightarrow> (case kline_data B d of None \<Rightarrow> klines s
                   | Some k \<Rightarrow> update_klines (klines s) k))"
  by (simp add: kline_on_message_def Let_def split: option.splits)

text \<open>
  The update rule of \<^verbatim>\<open>_on_message\<close>. A well-formed live kline message whose bar
  opens at the open time of the last bar replaces that bar and leaves the length of the
  series unchanged; any other bar is appended and, when the length then exceeds 100,
  the oldest bar is removed. The rule keeps a series of at most 100 bars within 100.
\<close>

lemma kline_update_rule:
  assumes "kline_data B d = Some k"
  shows "(klines s \<noteq> [] \<and> time (last (klines s)) = time k \<longrightarrow>
            klines (fst (kline_on_message B (Some d) s)) = butlast (klines s) @ [k]
          \<and> length (klines (fst (kline_on_message B (Some d) s))) = length (klines s))
       \<and> (\<not> (klines s \<noteq> [] \<and> time (last (klines s)) = time k) \<longrightarrow>
            klines (fst (kline_on_message B (Some d) s))
              = (if length (klines s @ [k]) > 100 then tl (klines s @ [k]) else klines s @ [k]))
       \<and> (length (klines s) \<le> 100 \<longrightarrow>
            length (klines (fst (kline_on_message B (Some d) s))) \<le> 100)"
proof -
  have u: "klines (fst (kline_on_message B (Some d) s)) = update_klines (klines s) k"
    using assms by (simp add: kline_on_message_klines)
  have r: "ks[length ks - 1 := k] = butlast ks @ [k]" if "ks \<noteq> []" for ks :: "'a kline list"
    using that by (induction ks rule: rev_induct) simp_all
  show ?thesis
    unfolding u using r[of "klines s"] by (auto simp: update_klines_def Let_def)
qed

text \<open>
  C5 fails on the code. The series is meant to keep the last 100 bars, but
  \<^verbatim>\<open>connect\<close> appends the seed to whatever the series holds and every reconnect
  calls \<^verbatim>\<open>connect\<close>. A client that was seeded with 20 bars and received 80 live
  bars holds 100; one close and reconnect appends 20 seed bars again, and from then on
  each live bar with a new open time is appended and one bar removed: the series
  holds 120 bars.
\<close>

theorem kline_series_exceeds_cap:
  "(let w = fst (run (kline_handle decimal_builtins) kline_start
                  ([Connect (seed_at 0, Spawned), Opened] @ live_minutes 20 80));
        w' = fst (run (kline_handle decimal_builtins) w
                  [Closed, Begin, Wake (seed_at 80, Spawned), Opened])
    in length (klines (state w)) = 100
     \<and> length (klines (state w')) = 120
     \<and> map_option time (kline_data decimal_builtins (live_kline 6000000 ''1.7'')) = Some 6000000
     \<and> length (klines (state (fst (step (kline_handle decimal_builtins)
                  (Message (Some (live_kline 6000000 ''1.7''))) w')))) = 120)"
  by code_simp

text \<open>Appending bars that follow an ascending series keeps it ascending.\<close>

lemma strict_le_last:
  fixes xs :: "int list"
  shows "sorted_wrt (<) xs \<Longrightarrow> x \<in> set xs \<Longrightarrow> x \<le> last xs"
  by (induction xs) (auto simp: less_imp_le)

lemma strict_hd_le:
  fixes xs :: "int list"
  shows "sorted_wrt (<) xs \<Longrightarrow> x \<in> set xs \<Longrightarrow> hd xs \<le> x"
  by (induction xs) (auto simp: less_imp_le)

lemma ascending_append:
  assumes "ascending ks" and "follows ks new"
  shows "ascending (ks @ new)"
proof (cases "ks = [] \<or> new = []")
  case True
  then show ?thesis using assms by (auto simp: follows_def)
next
  case False
  then have lt: "time (last ks) < time (hd new)" and n: "ascending new"
    using assms(2) by (auto simp: follows_def)
  have "x < y" if "x \<in> set (map time ks)" and "y \<in> set (map time new)" for x y
  proof -
    have "x \<le> last (map time ks)"
      using assms(1) that(1) unfolding ascending_def by (rule strict_le_last)
    moreover have "hd (map time new) \<le> y"
      using n that(2) unfolding ascending_def by (rule strict_hd_le)
    moreover have "last (map time ks) = time (last ks)" "hd (map time new) = time (hd new)"
      using False by (simp_all add: last_map hd_map)
    ultimately show ?thesis using lt by linarith
  qed
  then show ?thesis
    using assms(1) n by (simp add: ascending_def sorted_wrt_append)
qed

lemma ascending_tl: "ascending ks \<Longrightarrow> ascending (tl ks)"
  by (cases ks) (auto simp: ascending_def)

lemma ascending_replace_last:
  assumes "ascending ks" and "ks \<noteq> []" and "time (last ks) = time k"
  shows "ascending (ks[length ks - Suc 0 := k])"
proof -
  have "map time (ks[length ks - Suc 0 := k])
      = (map time ks)[length ks - Suc 0 := time (last ks)]"
    using assms(3) by (simp add: map_update)
  also have "\<dots> = map time ks"
    using assms(2) by (simp add: last_conv_nth list_update_same_conv)
  finally show ?thesis using assms(1) by (simp add: ascending_def)
qed

lemma ascending_update_klines:
  assumes "ascending ks" and "ks = [] \<or> time (last ks) \<le> time k"
  shows "ascending (update_klines ks k)"
proof (cases "ks \<noteq> [] \<and> time (last ks) = time k")
  case True
  then show ?thesis
    using assms(1) by (simp add: update_klines_def ascending_replace_last)
next
  case False
  then have "follows ks [k]"
    using assms(2) by (auto simp: follows_def ascending_def)
  then have "ascending (ks @ [k])"
    using assms(1) by (simp add: ascending_append)
  then show ?thesis
    using False by (auto simp: update_klines_def Let_def ascending_tl)
qed

lemma kline_handle_ascending:
  assumes "ascending (klines (state w))"
    and "in_order B e w"
    and "is_wake e \<longrightarrow> sleeping w \<noteq> 0"
  shows "ascending (klines (fst (kline_handle B e (state w))))"
proof (cases e)
  case (Connect c)
  then show ?thesis
    using assms by (simp add: kline_handle_def in_order_def kline_connect_klines ascending_append)
next
  case (Wake c)
  then show ?thesis
    using assms
    by (simp add: kline_handle_def in_order_def kline_reconnect_wait_connect_def kline_connect_klines
        ascending_append)
next
  case (Message m)
  then show ?thesis
    using assms
    by (auto simp: kline_handle_def in_order_def kline_on_message_klines ascending_update_klines
        split: option.splits)
next
  case Closed
  then show ?thesis
    using assms(1)
    by (simp add: kline_handle_def on_close_def Let_def case_prod_beta attempt_reconnect_klines)
next
  case (Disconnect r)
  then show ?thesis
    by (simp add: kline_handle_def kline_disconnect_def case_prod_beta ascending_def)
qed (use assms(1) in \<open>simp_all add: kline_handle_def set_on_message_callback_def
       set_on_error_callback_def on_open_def on_error_def reconnect_wait_sleep_def\<close>)

lemma step_ascending:
  assumes "ascending (klines (state w))" and "in_order B e w"
  shows "ascending (klines (state (fst (step (kline_handle B) e w))))"
proof (cases "(is_begin e \<and> waiting w = 0) \<or> (is_wake e \<and> sleeping w = 0)")
  case True
  then show ?thesis using assms(1) by (auto simp: step_def)
next
  case False
  have "ascending (klines (fst (kline_handle B e (state w))))"
    using assms False by (intro kline_handle_ascending) auto
  then show ?thesis
    using False by (auto simp: step_def case_prod_beta Let_def)
qed

lemma run_ascending:
  assumes "ordered B w evs" and "ascending (klines (state w))"
  shows "ascending (klines (state (fst (run (kline_handle B) w evs))))"
  using assms
proof (induction evs arbitrary: w)
  case Nil
  then show ?case by simp
next
  case (Cons e evs)
  have "ascending (klines (state (fst (step (kline_handle B) e w))))"
    using Cons.prems by (simp add: step_ascending)
  then have "ascending (klines (state (fst (run (kline_handle B) (fst (step (kline_handle B) e w)) evs))))"
    using Cons.prems(1) by (intro Cons.IH) simp_all
  then show ?case by (simp add: case_prod_beta Let_def)
qed

lemma ascending_distinct: "ascending ks \<Longrightarrow> distinct (map time ks)"
  unfolding ascending_def by (simp add: strict_sorted_iff)

text \<open>
  C6, as the code has it. The series is strictly ascending by open time, and so holds
  at most one bar per open time, after every run of the kline client in which the
  events arrive in order: each live bar opens no earlier than the last bar held, and
  the bars of each seed fetch are ascending and open after the last bar held.
\<close>

theorem kline_series_ascending:
  assumes "ordered B w evs" and "ascending (klines (state w))"
  shows "ascending (klines (state (fst (run (kline_handle B) w evs))))
       \<and> distinct (map time (klines (state (fst (run (kline_handle B) w evs)))))"
  using run_ascending[OF assms] by (simp add: ascending_distinct)

theorem kline_series_ascending_witness:
  "ordered decimal_builtins kline_start
     [Connect (Some (JArr [seed_row 1000]), Spawned), Opened, Message (Some (live_kline 1000 ''1.7'')),
      Message (Some (live_kline 2000 ''1.8''))]
   \<and> ascending (klines (state kline_start))
   \<and> map time (klines (state (fst (run (kline_handle decimal_builtins) kline_start
        [Connect (Some (JArr [seed_row 1000]), Spawned), Opened, Message (Some (live_kline 1000 ''1.7'')),
         Message (Some (live_kline 2000 ''1.8''))])))) = [1000, 2000]
   \<and> ascending (klines (state (fst (run (kline_handle decimal_builtins) kline_start
        [Connect (Some (JArr [seed_row 1000]), Spawned), Opened, Message (Some (live_kline 1000 ''1.7'')),
         Message (Some (live_kline 2000 ''1.8''))]))))"
proof -
  have a: "ordered decimal_builtins kline_start
     [Connect (Some (JArr [seed_row 1000]), Spawned), Opened, Message (Some (live_kline 1000 ''1.7'')),
      Message (Some (live_kline 2000 ''1.8''))]"
    by code_simp
  have b: "ascending (klines (state kline_start))"
    by code_simp
  have c: "map time (klines (state (fst (run (kline_handle decimal_builtins) kline_start
        [Connect (Some (JArr [seed_row 1000]), Spawned), Opened, Message (Some (live_kline 1000 ''1.7'')),
         Message (Some (live_kline 2000 ''1.8''))])))) = [1000, 2000]"
    by code_simp
  show ?thesis
    using kline_series_ascending[OF a b] a b c by simp
qed

text \<open>
  The claim C6 as the specification states it fails: the handler compares a live bar
  with the last bar only, so a bar that opens earlier is appended behind it; and a
  second \<^verbatim>\<open>connect\<close> appends the seed bars a second time.
\<close>

theorem kline_series_unsorted:
  "map time (klines (state (fst (run (kline_handle decimal_builtins) kline_start
        [Connect (None, Spawned), Opened, Message (Some (live_kline 1000 ''1.7'')),
         Message (Some (live_kline 2000 ''1.8'')), Message (Some (live_kline 1500 ''1.9''))]))))
     = [1000, 2000, 1500]
   \<and> map time (klines (state (fst (run (kline_handle decimal_builtins) kline_start
        [Connect (Some (JArr [seed_row 1000]), Spawned), Opened,
         Connect (Some (JArr [seed_row 1000]), Spawned)]))))
     = [1000, 1000]"
  by code_simp

section \<open>Connecting again\<close>

lemma attempt_reconnect_spawns_nothing:
  "RunForever a \<notin> set (snd (attempt_reconnect s :: 'a client_scheme \<times> 'p effect list))"
  by (simp add: attempt_reconnect_def Let_def)

text \<open>
  C9, as the code has it. \<^verbatim>\<open>connect\<close> is not guarded by the state of the
  connection: in every state, also when a connection is being made or is open, a call
  in which the connection is created and its thread started spawns one more
  connection and stores it as \<^verbatim>\<open>self.ws\<close>, without closing the one before; the
  flags, the reconnect counter, the callbacks and the latest data of the client are
  unchanged by the call. A call in which creating the connection or starting its thread
  raises spawns no connection: it logs the error and goes on as
  \<^verbatim>\<open>_attempt_reconnect\<close> does. (What the call does to the series of the kline client
  is not part of this statement.)
\<close>

theorem connect_not_guarded:
  fixes s :: "'a client_scheme" and k :: "'f kline_client"
  shows "(connect Spawned s :: 'a client_scheme \<times> 'p effect list)
           = (s\<lparr>ws := Some (WebSocketApp (ws_url s))\<rparr>,
              [RunForever (WebSocketApp (ws_url s)), Log INFO])
       \<and> (fst (kline_connect B response Spawned k :: 'f kline_client \<times> 'q effect list))
             \<lparr>klines := klines k\<rparr>
           = k\<lparr>ws := Some (WebSocketApp (ws_url k))\<rparr>
       \<and> (\<exists>l. snd (kline_connect B response Spawned k :: 'f kline_client \<times> 'q effect list)
                = [HttpGet 20, Log l, RunForever (WebSocketApp (ws_url k)), Log INFO])
       \<and> (connect AppRaises s :: 'a client_scheme \<times> 'p effect list)
           = (fst (attempt_reconnect s :: 'a client_scheme \<times> 'p effect list),
              Log ERROR # snd (attempt_reconnect s :: 'a client_scheme \<times> 'p effect list)
              @ [Log INFO])
       \<and> (connect ThreadRaises s :: 'a client_scheme \<times> 'p effect list)
           = (fst (attempt_reconnect (s\<lparr>ws := Some (WebSocketApp (ws_url s))\<rparr>)
                     :: 'a client_scheme \<times> 'p effect list),
              Log ERROR # snd (attempt_reconnect (s\<lparr>ws := Some (WebSocketApp (ws_url s))\<rparr>)
                                 :: 'a client_scheme \<times> 'p effect list)
              @ [Log INFO])
       \<and> (\<forall>a. RunForever a
                 \<notin> set (snd (connect AppRaises s :: 'a client_scheme \<times> 'p effect list)))
       \<and> (\<forall>a. RunForever a
                 \<notin> set (snd (connect ThreadRaises s :: 'a client_scheme \<times> 'p effect list)))"
proof -
  have a: "(connect Spawned s :: 'a client_scheme \<times> 'p effect list)
           = (s\<lparr>ws := Some (WebSocketApp (ws_url s))\<rparr>,
              [RunForever (WebSocketApp (ws_url s)), Log INFO])"
    by (simp add: connect_def run_ws_def)
  have b: "(fst (kline_connect B response Spawned k :: 'f kline_client \<times> 'q effect list))
             \<lparr>klines := klines k\<rparr>
           = k\<lparr>ws := Some (WebSocketApp (ws_url k))\<rparr>"
    by (simp add: kline_connect_def run_ws_def case_prod_beta Let_def fetch_state)
  have c: "\<exists>l. snd (kline_connect B response Spawned k :: 'f kline_client \<times> 'q effect list)
                = [HttpGet 20, Log l, RunForever (WebSocketApp (ws_url k)), Log INFO]"
    by (simp add: kline_connect_def run_ws_def fetch_historical_klines_def case_prod_beta
        Let_def split: option.splits)
  have d: "(connect AppRaises s :: 'a client_scheme \<times> 'p effect list)
           = (fst (attempt_reconnect s :: 'a client_scheme \<times> 'p effect list),
              Log ERROR # snd (attempt_reconnect s :: 'a client_scheme \<times> 'p effect list)
              @ [Log INFO])"
    by (simp add: connect_def run_ws_def case_prod_beta)
  have e: "(connect ThreadRaises s :: 'a client_scheme \<times> 'p effect list)
           = (fst (attempt_reconnect (s\<lparr>ws := Some (WebSocketApp (ws_url s))\<rparr>)
                     :: 'a client_scheme \<times> 'p effect list),
              Log ERROR # snd (attempt_reconnect (s\<lparr>ws := Some (WebSocketApp (ws_url s))\<rparr>)
                                 :: 'a client_scheme \<times> 'p effect list)
              @ [Log INFO])"
    by (simp add: connect_def run_ws_def case_prod_beta)
  have f: "\<forall>a. RunForever a
                 \<notin> set (snd (connect AppRaises s :: 'a client_scheme \<times> 'p effect list))"
    unfolding d by (simp add: attempt_reconnect_spawns_nothing)
  have g: "\<forall>a. RunForever a
                 \<notin> set (snd (connect ThreadRaises s :: 'a client_scheme \<times> 'p effect list))"
    unfolding e by (simp add: attempt_reconnect_spawns_nothing)
  show ?thesis
    by (intro conjI a b c d e f g)
qed

text \<open>
  The claim C9 as the specification states it fails: on an open ticker client a second
  \<^verbatim>\<open>connect\<close> spawns a second connection, and on an open kline client it also
  appends the seed bar a second time.
\<close>

theorem connect_again_spawns_again:
  "(let w = fst (run (ticker_handle decimal_builtins) ticker_start [Connect Spawned, Opened])
    in is_connected (state w) = True
     \<and> snd (step (ticker_handle decimal_builtins) (Connect Spawned) w)
         = [RunForever (WebSocketApp ''wss://stream.binance.com:9443/ws/btcusdt@ticker''),
            Log INFO])
   \<and> (let k = fst (run (kline_handle decimal_builtins) kline_start
                    [Connect (Some (JArr [seed_row 1000]), Spawned), Opened])
      in is_connected (state k) = True
       \<and> map time (klines (state k)) = [1000]
       \<and> map time (klines (state (fst (step (kline_handle decimal_builtins)
                     (Connect (Some (JArr [seed_row 1000]), Spawned)) k)))) = [1000, 1000]
       \<and> snd (step (kline_handle decimal_builtins)
                     (Connect (Some (JArr [seed_row 1000]), Spawned)) k)
           = [HttpGet 20, Log INFO,
              RunForever (WebSocketApp ''wss://stream.binance.com:9443/ws/btcusdt@kline_1m''),
              Log INFO])"
  by code_simp

section \<open>Malformed messages\<close>

lemma py_get_not_object: "not_object d \<Longrightarrow> py_get d key dflt = None"
  by (cases d) (simp_all add: not_object_def)

lemma good_field:
  assumes "py_get d key dflt = Some v" and "conv v = Some x"
  shows "\<not> bad_field conv d key"
  using assms by (cases d) (auto simp: bad_field_def split: option.splits)

lemma ticker_data_fields:
  assumes "ticker_data B d = Some t"
  shows "\<not> not_object d"
    and "\<forall>key \<in> set [''c'', ''h'', ''l'', ''v'', ''q'', ''p'', ''P'']. \<not> bad_field (py_float B) d key"
    and "\<not> bad_field (py_int B) d ''E''"
proof -
  from assms obtain c c' h h' l l' v v' q q' p p' P P' E E' where
    g: "py_get d ''c'' (JInt 0) = Some c" "py_float B c = Some c'"
       "py_get d ''h'' (JInt 0) = Some h" "py_float B h = Some h'"
       "py_get d ''l'' (JInt 0) = Some l" "py_float B l = Some l'"
       "py_get d ''v'' (JInt 0) = Some v" "py_float B v = Some v'"
       "py_get d ''q'' (JInt 0) = Some q" "py_float B q = Some q'"
       "py_get d ''p'' (JInt 0) = Some p" "py_float B p = Some p'"
       "py_get d ''P'' (JInt 0) = Some P" "py_float B P = Some P'"
       "py_get d ''E'' (JInt 0) = Some E" "py_int B E = Some E'"
    unfolding ticker_data_def by (auto simp: bind_eq_Some_conv)
  show "\<not> not_object d"
    using g(1) py_get_not_object by fastforce
  show "\<forall>key \<in> set [''c'', ''h'', ''l'', ''v'', ''q'', ''p'', ''P'']. \<not> bad_field (py_float B) d key"
    using g(1-14) by (simp add: good_field)
  show "\<not> bad_field (py_int B) d ''E''"
    using g(15,16) by (rule good_field)
qed

lemma ticker_malformed_dropped:
  assumes "ticker_malformed B m"
  shows "ticker_on_message B m s = (s, [Log ERROR])"
proof (cases m)
  case None
  then show ?thesis by (simp add: ticker_on_message_def)
next
  case (Some d)
  have "ticker_data B d = None"
  proof (rule ccontr)
    assume "ticker_data B d \<noteq> None"
    then obtain t where "ticker_data B d = Some t" by auto
    from ticker_data_fields[OF this] assms Some show False
      unfolding ticker_malformed_def by auto
  qed
  then show ?thesis using Some by (simp add: ticker_on_message_def)
qed


lemma those_map_Some:
  "those (map f xs) = Some ys \<longleftrightarrow>
     length ys = length xs \<and> (\<forall>i < length xs. f (xs ! i) = Some (ys ! i))"
proof (induction xs arbitrary: ys)
  case Nil
  then show ?case by auto
next
  case (Cons x xs)
  show ?case
  proof (cases "f x")
    case None
    then show ?thesis by auto
  next
    case (Some y)
    show ?thesis
    proof (cases "those (map f xs)")
      case None
      have "\<not> (length ys = length (x # xs) \<and> (\<forall>i < length (x # xs). f ((x # xs) ! i) = Some (ys ! i)))"
      proof
        assume a: "length ys = length (x # xs) \<and> (\<forall>i < length (x # xs). f ((x # xs) ! i) = Some (ys ! i))"
        then obtain z zs where ys: "ys = z # zs" by (cases ys) auto
        have "length zs = length xs \<and> (\<forall>i < length xs. f (xs ! i) = Some (zs ! i))"
          using a ys by fastforce
        then have "those (map f xs) = Some zs" using Cons.IH by blast
        then show False using None by simp
      qed
      then show ?thesis using None \<open>f x = Some y\<close> by simp
    next
      case (Some zs)
      then have zs: "length zs = length xs" "\<forall>i < length xs. f (xs ! i) = Some (zs ! i)"
        using Cons.IH by blast+
      show ?thesis
      proof
        assume "those (map f (x # xs)) = Some ys"
        then have "ys = y # zs" using Some \<open>f x = Some y\<close> by simp
        then show "length ys = length (x # xs) \<and> (\<forall>i < length (x # xs). f ((x # xs) ! i) = Some (ys ! i))"
          using zs \<open>f x = Some y\<close> by (auto simp: nth_Cons split: nat.splits)
      next
        assume a: "length ys = length (x # xs) \<and> (\<forall>i < length (x # xs). f ((x # xs) ! i) = Some (ys ! i))"
        then obtain z ws where ys: "ys = z # ws" by (cases ys) auto
        have "z = y" using a ys \<open>f x = Some y\<close> by fastforce
        moreover have "length ws = length xs \<and> (\<forall>i < length xs. f (xs ! i) = Some (ws ! i))"
          using a ys by fastforce
        then have "those (map f xs) = Some ws" using Cons.IH by blast
        then have "ws = zs" using Some by simp
        ultimately show "those (map f (x # xs)) = Some ys"
          using ys Some \<open>f x = Some y\<close> by simp
      qed
    qed
  qed
qed

lemma depth_side_good:
  assumes "depth_side B n d key = Some xs"
  shows "\<not> bad_side B n d key"
proof (cases d)
  case (JObj kvs)
  show ?thesis
  proof (cases "map_of kvs key")
    case None
    then show ?thesis using JObj by (simp add: bad_side_def)
  next
    case (Some v)
    from assms JObj Some obtain cut entries where
      e: "py_slice_to v n = Some cut" "py_iter cut = Some entries"
         "those (map (level_pair B) entries) = Some xs"
      unfolding depth_side_def by (auto simp: bind_eq_Some_conv)
    have "\<forall>x \<in> set entries. level_pair B x \<noteq> None"
      using e(3) by (auto simp: those_map_Some in_set_conv_nth)
    then show ?thesis using JObj Some e(1,2) by (simp add: bad_side_def)
  qed
qed (use assms in \<open>simp_all add: depth_side_def\<close>)

lemma depth_malformed_dropped:
  assumes "depth_malformed B (depth s) m"
  shows "depth_on_message B m s = (s, [Log ERROR])"
proof (cases m)
  case None
  then show ?thesis by (simp add: depth_on_message_def)
next
  case (Some d)
  have "depth_snapshot B (depth s) d = None"
  proof (rule ccontr)
    assume "depth_snapshot B (depth s) d \<noteq> None"
    then obtain t where "depth_snapshot B (depth s) d = Some t" by auto
    then obtain bs as E E' where
      g: "depth_side B (depth s) d ''bids'' = Some bs" "depth_side B (depth s) d ''asks'' = Some as"
         "py_get d ''E'' (JInt 0) = Some E" "py_int B E = Some E'"
      unfolding depth_snapshot_def by (auto simp: bind_eq_Some_conv)
    have "\<not> not_object d" using g(3) py_get_not_object by fastforce
    moreover have "\<not> bad_field (py_int B) d ''E''" using g(3,4) by (rule good_field)
    moreover have "\<not> bad_side B (depth s) d ''bids''" "\<not> bad_side B (depth s) d ''asks''"
      using g(1,2) by (simp_all add: depth_side_good)
    ultimately show False
      using assms Some unfolding depth_malformed_def by auto
  qed
  then show ?thesis using Some by (simp add: depth_on_message_def)
qed

lemma kline_malformed_dropped:
  assumes "kline_malformed B m"
  shows "kline_on_message B m s = (s, [Log ERROR])"
proof (cases m)
  case None
  then show ?thesis by (simp add: kline_on_message_def)
next
  case (Some d)
  have "kline_data B d = None"
  proof (rule ccontr)
    assume "kline_data B d \<noteq> None"
    then obtain b where "kline_data B d = Some b" by auto
    then obtain k o1 o' h h' l l' c c' v v' t t' where
      g: "py_get d ''k'' (JObj []) = Some k"
         "py_get k ''o'' (JInt 0) = Some o1" "py_float B o1 = Some o'"
         "py_get k ''h'' (JInt 0) = Some h" "py_float B h = Some h'"
         "py_get k ''l'' (JInt 0) = Some l" "py_float B l = Some l'"
         "py_get k ''c'' (JInt 0) = Some c" "py_float B c = Some c'"
         "py_get k ''v'' (JInt 0) = Some v" "py_float B v = Some v'"
         "py_get k ''t'' (JInt 0) = Some t" "py_int B t = Some t'"
      unfolding kline_data_def by (auto simp: bind_eq_Some_conv)
    have "\<not> not_object k" using g(2) py_get_not_object by fastforce
    moreover have "\<forall>key \<in> set [''o'', ''h'', ''l'', ''c'', ''v'']. \<not> bad_field (py_float B) k key"
      using g(2-11) by (simp add: good_field)
    moreover have "\<not> bad_field (py_int B) k ''t''" using g(12,13) by (rule good_field)
    ultimately show False
      using assms Some g(1) unfolding kline_malformed_def by auto
  qed
  then show ?thesis using Some by (simp add: kline_on_message_def)
qed

lemma trade_malformed_dropped:
  assumes "trade_malformed B m"
  shows "trades_on_message B m s = (s, if is_running s then [Log DEBUG] else [])"
proof (cases m)
  case None
  then show ?thesis by (simp add: trades_on_message_def)
next
  case (Some d)
  have "trade_data B d = None"
  proof (rule ccontr)
    assume "trade_data B d \<noteq> None"
    then obtain b where "trade_data B d = Some b" by auto
    then obtain p p' q q' where
      g: "py_get d ''p'' (JInt 0) = Some p" "py_float B p = Some p'"
         "py_get d ''q'' (JInt 0) = Some q" "py_float B q = Some q'"
      unfolding trade_data_def by (auto simp: bind_eq_Some_conv)
    have "\<not> not_object d" using g(1) py_get_not_object by fastforce
    moreover have "\<forall>key \<in> set [''p'', ''q'']. \<not> bad_field (py_float B) d key"
      using g by (simp add: good_field)
    ultimately show False
      using assms Some unfolding trade_malformed_def by auto
  qed
  then show ?thesis using Some by (simp add: trades_on_message_def)
qed

text \<open>
  C4, as the code has it. A message is dropped - the handler logs, invokes no callback
  and leaves the client, with its snapshot and history, as it was - when its payload
  does not decode, when the payload is not an object, or when a field that the
  normalizer passes to \<^verbatim>\<open>float\<close> or \<^verbatim>\<open>int\<close> is present with a value on which the
  conversion raises; for the depth client also when a side that is present cannot be
  sliced, or holds within the configured depth an entry whose price or quantity cannot
  be read and converted. (A missing field is read with a default; the fields \<^verbatim>\<open>T\<close> and
  \<^verbatim>\<open>m\<close> of a trade and \<^verbatim>\<open>x\<close> of a kline are never converted; a boolean converts
  as 0 or 1. Messages of these kinds are processed.)
\<close>

theorem malformed_message_dropped:
  "(ticker_malformed B m \<longrightarrow> ticker_on_message B m s = (s, [Log ERROR]))
   \<and> (depth_malformed B (depth ds) m \<longrightarrow> depth_on_message B m ds = (ds, [Log ERROR]))
   \<and> (kline_malformed B m \<longrightarrow> kline_on_message B m ks = (ks, [Log ERROR]))
   \<and> (trade_malformed B m \<longrightarrow>
        trades_on_message B m ts = (ts, if is_running ts then [Log DEBUG] else []))"
  using ticker_malformed_dropped depth_malformed_dropped kline_malformed_dropped
    trade_malformed_dropped by blast

theorem malformed_message_dropped_witness:
  "ticker_malformed decimal_builtins (Some (JObj [(''c'', JStr ''n/a''), (''E'', JInt 1)]))
   \<and> ticker_on_message decimal_builtins (Some (JObj [(''c'', JStr ''n/a''), (''E'', JInt 1)]))
        (state ticker_start) = (state ticker_start, [Log ERROR])
   \<and> depth_malformed decimal_builtins (depth depth_start)
        (Some (JObj [(''bids'', JArr [JArr [JStr ''65000.12'', JStr ''''], JArr [JStr ''1'']])]))
   \<and> depth_on_message decimal_builtins
        (Some (JObj [(''bids'', JArr [JArr [JStr ''65000.12'', JStr ''''], JArr [JStr ''1'']])]))
        depth_start = (depth_start, [Log ERROR])
   \<and> kline_malformed decimal_builtins None
   \<and> kline_on_message decimal_builtins None (state kline_start) = (state kline_start, [Log ERROR])
   \<and> trade_malformed decimal_builtins (Some (JArr [JInt 1]))
   \<and> trades_on_message decimal_builtins (Some (JArr [JInt 1])) trades_start
        = (trades_start, [Log DEBUG])"
proof -
  have t: "ticker_malformed decimal_builtins (Some (JObj [(''c'', JStr ''n/a''), (''E'', JInt 1)]))"
    by code_simp
  have d: "depth_malformed decimal_builtins (depth depth_start)
        (Some (JObj [(''bids'', JArr [JArr [JStr ''65000.12'', JStr ''''], JArr [JStr ''1'']])]))"
    by code_simp
  have k: "kline_malformed decimal_builtins None"
    by code_simp
  have r: "trade_malformed decimal_builtins (Some (JArr [JInt 1]))"
    by code_simp
  have run: "is_running trades_start"
    by (simp add: trades_start_def trades_init_def)
  note malformed_message_dropped[where B = decimal_builtins]
  from this[where m = "Some (JObj [(''c'', JStr ''n/a''), (''E'', JInt 1)])"
      and s = "state ticker_start"] t
  have t': "ticker_on_message decimal_builtins (Some (JObj [(''c'', JStr ''n/a''), (''E'', JInt 1)]))
        (state ticker_start) = (state ticker_start, [Log ERROR])"
    by blast
  from malformed_message_dropped[where B = decimal_builtins and ds = depth_start
      and m = "Some (JObj [(''bids'', JArr [JArr [JStr ''65000.12'', JStr ''''], JArr [JStr ''1'']])])"] d
  have d': "depth_on_message decimal_builtins
        (Some (JObj [(''bids'', JArr [JArr [JStr ''65000.12'', JStr ''''], JArr [JStr ''1'']])]))
        depth_start = (depth_start, [Log ERROR])"
    by blast
  from malformed_message_dropped[where B = decimal_builtins and ks = "state kline_start"
      and m = None] k
  have k': "kline_on_message decimal_builtins None (state kline_start)
        = (state kline_start, [Log ERROR])"
    by blast
  from malformed_message_dropped[where B = decimal_builtins and ts = trades_start
      and m = "Some (JArr [JInt 1])"] r run
  have r': "trades_on_message decimal_builtins (Some (JArr [JInt 1])) trades_start
        = (trades_start, [Log DEBUG])"
    by simp
  from t t' d d' k k' r r' show ?thesis by blast
qed

text \<open>
  The claim C4 as the specification states it fails, for a missing field and for
  fields that are not numbers. A ticker message without the field \<^verbatim>\<open>P\<close> replaces
  the snapshot (with a change of 0 percent) and reaches the callback, and a kline
  message without any field appends a bar with open time 0: a missing field is read
  with a default. A ticker message whose price is the boolean \<^verbatim>\<open>true\<close> gives a
  snapshot with the price 1: \<^verbatim>\<open>float(True)\<close> does not raise. A trade whose time is
  the string \<^verbatim>\<open>not-a-time\<close> is inserted in the log, and a kline whose closed flag
  is a string is appended: these fields are never converted.
\<close>

theorem missing_field_processed:
  "(let s = state (fst (run (ticker_handle decimal_builtins) ticker_start
                     [SetOnMessage 3, Connect Spawned, Opened, Message (Some ticker_message)]))
    in map_option ticker.price_change_percent (last_data s) = Some (77, 2)
     \<and> ticker_on_message decimal_builtins
          (Some (JObj [(''c'', JStr ''65000.12''), (''h'', JStr ''66000''), (''l'', JStr ''64000''),
                       (''v'', JStr ''120.5''), (''q'', JStr ''7890000''), (''p'', JStr ''500''),
                       (''E'', JInt 1700000000001)])) s
         = (s\<lparr>last_data :=
                Some \<lparr>ticker.price = (6500012, 2), ticker.high = (66000, 0),
                       ticker.low = (64000, 0), ticker.volume = (1205, 1),
                       ticker.quote_volume = (7890000, 0), ticker.price_change = (500, 0),
                       ticker.price_change_percent = (0, 0),
                       ticker.timestamp = 1700000000001\<rparr>\<rparr>,
            [MessageCallback 3
               \<lparr>ticker.price = (6500012, 2), ticker.high = (66000, 0),
                 ticker.low = (64000, 0), ticker.volume = (1205, 1),
                 ticker.quote_volume = (7890000, 0), ticker.price_change = (500, 0),
                 ticker.price_change_percent = (0, 0), ticker.timestamp = 1700000000001\<rparr>,
             Log DEBUG])
     \<and> map_option ticker.price
          (last_data (fst (ticker_on_message decimal_builtins
                             (Some (JObj [(''c'', JBool True), (''E'', JInt 1700000000002)])) s)))
         = Some (1, 0)
     \<and> length (snd (ticker_on_message decimal_builtins
                       (Some (JObj [(''c'', JBool True), (''E'', JInt 1700000000002)])) s)) = 2)
   \<and> (let k = state (fst (run (kline_handle decimal_builtins) kline_start
                       [SetOnMessage 3, Connect (Some (JArr [seed_row 1000]), Spawned), Opened]))
      in map time (klines k) = [1000]
       \<and> map time (klines (fst (kline_on_message decimal_builtins (Some (JObj [])) k)))
           = [1000, 0]
       \<and> length (snd (kline_on_message decimal_builtins (Some (JObj [])) k)) = 2
       \<and> map is_closed
            (klines (fst (kline_on_message decimal_builtins
               (Some (JObj [(''k'', JObj [(''t'', JInt 2000), (''x'', JStr ''maybe'')])])) k)))
           = [JBool True, JStr ''maybe''])
   \<and> trades (fst (trades_on_message decimal_builtins
                    (Some (JObj [(''p'', JStr ''65000.12''), (''q'', JStr ''0.5''),
                                 (''T'', JStr ''not-a-time'')])) trades_start))
       = [\<lparr>trade.price = (6500012, 2), qty = (5, 1), side = BUY,
           trade.time = JStr ''not-a-time''\<rparr>]"
  by code_simp

section \<open>Trade log\<close>

lemma trades_insert:
  assumes "is_running s" and "trade_of B m = Some t"
  shows "fst (trades_on_message B m s) = s\<lparr>trades := take (max_trades s) (t # trades s)\<rparr>"
  using assms
  by (cases m) (auto simp: trades_on_message_def trade_of_def Let_def)

lemma take_append_take: "take n (xs @ take n ys) = take n (xs @ ys)"
  by (induction xs arbitrary: n) (auto simp: take_Cons split: nat.splits)

lemma trades_run_messages:
  assumes "is_running s" and "map (trade_of B) ms = map Some ts" and "ms \<noteq> []"
  shows "fst (trades_run B s (map TMessage ms))
           = s\<lparr>trades := take (max_trades s) (rev ts @ trades s)\<rparr>"
  using assms
proof (induction ms arbitrary: s ts)
  case Nil
  then show ?case by simp
next
  case (Cons m ms)
  from Cons.prems(2) obtain t ts' where
    ts: "ts = t # ts'" and t: "trade_of B m = Some t" and r: "map (trade_of B) ms = map Some ts'"
    by (cases ts) auto
  let ?s1 = "s\<lparr>trades := take (max_trades s) (t # trades s)\<rparr>"
  have s1: "fst (trades_on_message B m s) = ?s1"
    using Cons.prems(1) t by (rule trades_insert)
  have step: "fst (trades_run B s (map TMessage (m # ms))) = fst (trades_run B ?s1 (map TMessage ms))"
    using s1 by (simp add: trades_handle_def case_prod_beta Let_def)
  show ?case
  proof (cases "ms = []")
    case True
    then have "ts' = []" using r by simp
    then show ?thesis using step True ts by simp
  next
    case False
    have "fst (trades_run B ?s1 (map TMessage ms))
            = ?s1\<lparr>trades := take (max_trades ?s1) (rev ts' @ trades ?s1)\<rparr>"
      using Cons.prems(1) r False by (intro Cons.IH) simp_all
    then show ?thesis
      using step ts by (simp add: take_append_take)
  qed
qed

text \<open>
  C7. While the trades client is running, with its cap of 50, a sequence of
  well-formed trade messages inserts each trade at the front of the log and cuts the
  log to its first 50 entries: after the messages the log is the first 50 entries of
  the trades in reverse order of arrival followed by the log held before. After more
  than 50 messages the log has exactly 50 entries and its first entry is the trade of
  the last message.
\<close>

theorem trade_log_front_insert:
  assumes "is_running s" and "max_trades s = 50" and "map (trade_of B) ms = map Some ts"
  shows "(ms \<noteq> [] \<longrightarrow>
            trades (fst (trades_on_message B (hd ms) s)) = take 50 (hd ts # trades s)
          \<and> trades (fst (trades_run B s (map TMessage ms))) = take 50 (rev ts @ trades s))
       \<and> (length ms > 50 \<longrightarrow>
            length (trades (fst (trades_run B s (map TMessage ms)))) = 50
          \<and> hd (trades (fst (trades_run B s (map TMessage ms)))) = last ts)"
proof -
  have len: "length ts = length ms"
    using assms(3) by (metis length_map)
  have one: "trades (fst (trades_on_message B (hd ms) s)) = take 50 (hd ts # trades s)"
    if "ms \<noteq> []"
  proof -
    from that assms(3) have "trade_of B (hd ms) = Some (hd ts)"
      by (cases ms; cases ts) auto
    then show ?thesis using trades_insert[OF assms(1)] assms(2) by simp
  qed
  have all: "trades (fst (trades_run B s (map TMessage ms))) = take 50 (rev ts @ trades s)"
    if "ms \<noteq> []"
    using trades_run_messages[OF assms(1,3) that] assms(2) by simp
  have big: "length (trades (fst (trades_run B s (map TMessage ms)))) = 50
          \<and> hd (trades (fst (trades_run B s (map TMessage ms)))) = last ts"
    if "length ms > 50"
  proof -
    from that have ne: "ms \<noteq> []" "ts \<noteq> []" using len by auto
    have "hd (take 50 (rev ts @ trades s)) = hd (rev ts)"
      using ne(2) by (cases "rev ts") auto
    then show ?thesis
      using all[OF ne(1)] that len ne(2) by (simp add: hd_rev)
  qed
  from one all big show ?thesis by blast
qed

lemma trade_message_trade:
  "trade_of decimal_builtins (Some (trade_message T))
     = Some \<lparr>trade.price = (6500012, 2), qty = (5, 1), side = SELL, trade.time = JInt T\<rparr>"
proof -
  have p: "float_of_str decimal_builtins ''65000.12'' = Some (6500012, 2)"
    by code_simp
  have q: "float_of_str decimal_builtins ''0.5'' = Some (5, 1)"
    by code_simp
  show ?thesis
    by (simp add: trade_of_def trade_message_def trade_data_def p q)
qed

theorem trade_log_front_insert_witness:
  "is_running trades_start \<and> max_trades trades_start = 50
   \<and> length (map (\<lambda>i. Some (trade_message (int i))) [0..<51]) = 51
   \<and> length (trades (fst (trades_run decimal_builtins trades_start
               (map TMessage (map (\<lambda>i. Some (trade_message (int i))) [0..<51]))))) = 50
   \<and> hd (trades (fst (trades_run decimal_builtins trades_start
               (map TMessage (map (\<lambda>i. Some (trade_message (int i))) [0..<51])))))
       = \<lparr>trade.price = (6500012, 2), qty = (5, 1), side = SELL, trade.time = JInt 50\<rparr>"
proof -
  let ?ms = "map (\<lambda>i. Some (trade_message (int i))) [0..<51]"
  let ?ts = "map (\<lambda>i. \<lparr>trade.price = (6500012, 2), qty = (5, 1), side = SELL, trade.time = JInt (int i)\<rparr>)
               [0..<51] :: (int \<times> nat) trade list"
  have a: "is_running trades_start" and b: "max_trades trades_start = 50"
    by (simp_all add: trades_start_def trades_init_def)
  have c: "map (trade_of decimal_builtins) ?ms = map Some ?ts"
    by (simp add: trade_message_trade)
  have l: "length ?ms = 51"
    by simp
  have e: "last ?ts = \<lparr>trade.price = (6500012, 2), qty = (5, 1), side = SELL, trade.time = JInt 50\<rparr>"
    by (simp add: last_map)
  have g: "length ?ms > 50"
    by simp
  from trade_log_front_insert[OF a b c] g
  have r: "length (trades (fst (trades_run decimal_builtins trades_start (map TMessage ?ms)))) = 50
         \<and> hd (trades (fst (trades_run decimal_builtins trades_start (map TMessage ?ms)))) = last ?ts"
    by blast
  from a b l r[unfolded e] show ?thesis
    by blast
qed

lemma trades_handle_stopped:
  assumes "\<not> is_running s"
  shows "\<not> is_running (fst (trades_handle B e s))"
    and "MessageCallback cb p \<notin> set (snd (trades_handle B e s))"
  using assms
  by (cases e;
      auto simp: trades_handle_def set_on_message_callback_def set_on_error_callback_def
        trades_connect_def trades_on_message_def trades_on_error_def trades_on_close_def
        trades_disconnect_def Let_def split: spawn.splits option.splits)+

lemma trades_run_stopped:
  assumes "\<not> is_running s"
  shows "\<not> is_running (fst (trades_run B s evs))
       \<and> MessageCallback cb p \<notin> set (snd (trades_run B s evs))"
  using assms
proof (induction evs arbitrary: s)
  case Nil
  then show ?case by simp
next
  case (Cons e evs)
  have h: "\<not> is_running (fst (trades_handle B e s))"
       "MessageCallback cb p \<notin> set (snd (trades_handle B e s))"
    using Cons.prems by (simp_all add: trades_handle_stopped)
  from Cons.IH[OF h(1)] h(2) show ?case
    by (simp add: case_prod_beta Let_def)
qed

text \<open>
  C10. After \<^verbatim>\<open>disconnect\<close> on the trades client, whatever is called or delivered
  next, the client is not running, no message callback is ever invoked, and a message
  delivered then is ignored before it is parsed: it changes nothing and has no effect.
\<close>

theorem messages_after_disconnect_ignored:
  "is_running (fst (trades_run B (fst (trades_disconnect r s)) evs)) = False
   \<and> trades_on_message B m (fst (trades_run B (fst (trades_disconnect r s)) evs))
       = (fst (trades_run B (fst (trades_disconnect r s)) evs), [])
   \<and> (\<forall>cb p. MessageCallback cb p \<notin> set (snd (trades_run B (fst (trades_disconnect r s)) evs)))"
proof -
  have d: "\<not> is_running (fst (trades_disconnect r s))"
    by (simp add: trades_disconnect_def Let_def split: option.splits)
  have "\<not> is_running (fst (trades_run B (fst (trades_disconnect r s)) evs))"
    using trades_run_stopped[OF d] by blast
  moreover have "MessageCallback cb p \<notin> set (snd (trades_run B (fst (trades_disconnect r s)) evs))"
    for cb p
    using trades_run_stopped[OF d] by blast
  ultimately show ?thesis by (simp add: trades_on_message_def)
qed

section \<open>Depth snapshot\<close>

lemma slice_iter:
  assumes "py_slice_to sd n = Some part" and "py_iter part = Some entries" and "0 \<le> n"
  shows "\<exists>es. py_iter sd = Some es \<and> entries = take (nat n) es"
  using assms by (cases sd) (auto simp: py_take_def take_map)

lemma depth_side_entries:
  assumes "depth_side B n d key = Some xs" and "0 \<le> n"
  shows "\<exists>es. incoming d key = Some es
            \<and> length xs = min (nat n) (length es)
            \<and> (\<forall>i < length xs. level_pair B (es ! i) = Some (xs ! i))"
proof -
  from assms(1) obtain sd part entries where
    e: "py_get d key (JArr []) = Some sd" "py_slice_to sd n = Some part"
       "py_iter part = Some entries" "those (map (level_pair B) entries) = Some xs"
    unfolding depth_side_def by (auto simp: bind_eq_Some_conv)
  from slice_iter[OF e(2,3) assms(2)] obtain es where
    es: "py_iter sd = Some es" "entries = take (nat n) es"
    by blast
  have "incoming d key = Some es"
    using e(1) es(1) by (simp add: incoming_def)
  moreover have "length xs = length entries"
    and c: "\<forall>i < length entries. level_pair B (entries ! i) = Some (xs ! i)"
    using e(4) by (simp_all add: those_map_Some)
  moreover have "length entries = min (nat n) (length es)"
    using es(2) by (simp add: min.commute)
  moreover have "\<forall>i < length xs. level_pair B (es ! i) = Some (xs ! i)"
    using c es(2) \<open>length xs = length entries\<close> by simp
  ultimately show ?thesis by simp
qed

text \<open>
  C8. For every depth message that yields a snapshot, with a configured depth
  \<open>N \<ge> 0\<close>: each side of the snapshot holds the first \<open>min N len\<close> entries of
  the incoming array of length \<open>len\<close>, so at most \<open>N\<close>, in the order of the input,
  each entry converted to the pair of floats of its price and its quantity. The
  snapshot becomes the client's latest data and is what the callback receives.
\<close>

theorem depth_snapshot_truncated:
  assumes "0 \<le> depth s" and "depth_snapshot B (depth s) d = Some snap"
  shows "depth_on_message B (Some d) s
           = (s\<lparr>last_data := Some snap\<rparr>,
              (case on_message_callback s of None \<Rightarrow> [] | Some cb \<Rightarrow> [MessageCallback cb snap]))
       \<and> (\<exists>bs as.
             incoming d ''bids'' = Some bs \<and> incoming d ''asks'' = Some as
           \<and> length (bids snap) = min (nat (depth s)) (length bs)
           \<and> length (asks snap) = min (nat (depth s)) (length as)
           \<and> length (bids snap) \<le> nat (depth s) \<and> length (asks snap) \<le> nat (depth s)
           \<and> (\<forall>i < length (bids snap). level_pair B (bs ! i) = Some (bids snap ! i))
           \<and> (\<forall>i < length (asks snap). level_pair B (as ! i) = Some (asks snap ! i)))"
proof -
  from assms(2) obtain xs ys where
    g: "depth_side B (depth s) d ''bids'' = Some xs" "depth_side B (depth s) d ''asks'' = Some ys"
       "bids snap = xs" "asks snap = ys"
    unfolding depth_snapshot_def by (auto simp: bind_eq_Some_conv)
  from depth_side_entries[OF g(1) assms(1)] obtain bs where
    b: "incoming d ''bids'' = Some bs" "length xs = min (nat (depth s)) (length bs)"
       "\<forall>i < length xs. level_pair B (bs ! i) = Some (xs ! i)"
    by blast
  from depth_side_entries[OF g(2) assms(1)] obtain as where
    a: "incoming d ''asks'' = Some as" "length ys = min (nat (depth s)) (length as)"
       "\<forall>i < length ys. level_pair B (as ! i) = Some (ys ! i)"
    by blast
  have "depth_on_message B (Some d) s
           = (s\<lparr>last_data := Some snap\<rparr>,
              (case on_message_callback s of None \<Rightarrow> [] | Some cb \<Rightarrow> [MessageCallback cb snap]))"
    using assms(2) by (simp add: depth_on_message_def)
  moreover have "length (bids snap) \<le> nat (depth s)" "length (asks snap) \<le> nat (depth s)"
    using g(3,4) b(2) a(2) by simp_all
  ultimately show ?thesis
    using g(3,4) a b by blast
qed

theorem depth_snapshot_truncated_witness:
  "0 \<le> depth depth_start
   \<and> depth_snapshot decimal_builtins (depth depth_start) depth_message
       = Some \<lparr>bids = [((6500012, 2), 5, 1), ((6500011, 2), 5, 1), ((6500010, 2), 5, 1),
                       ((6500009, 2), 5, 1), ((6500008, 2), 5, 1)],
                asks = [((6500013, 2), 125, 2), ((6500014, 2), 2, 0)],
                timestamp = 1700000000000\<rparr>
   \<and> length (the (incoming depth_message ''bids'')) = 7
   \<and> fst (depth_on_message decimal_builtins (Some depth_message) depth_start)
       = depth_start\<lparr>last_data :=
           Some \<lparr>bids = [((6500012, 2), 5, 1), ((6500011, 2), 5, 1), ((6500010, 2), 5, 1),
                         ((6500009, 2), 5, 1), ((6500008, 2), 5, 1)],
                  asks = [((6500013, 2), 125, 2), ((6500014, 2), 2, 0)],
                  timestamp = 1700000000000\<rparr>\<rparr>"
proof -
  have a: "0 \<le> depth depth_start"
    by (simp add: depth_start_def depth_init_def)
  have b: "depth_snapshot decimal_builtins (depth depth_start) depth_message
       = Some \<lparr>bids = [((6500012, 2), 5, 1), ((6500011, 2), 5, 1), ((6500010, 2), 5, 1),
                       ((6500009, 2), 5, 1), ((6500008, 2), 5, 1)],
                asks = [((6500013, 2), 125, 2), ((6500014, 2), 2, 0)],
                timestamp = 1700000000000\<rparr>"
    by code_simp
  have c: "length (the (incoming depth_message ''bids'')) = 7"
    by code_simp
  show ?thesis
    using depth_snapshot_truncated[OF a b] a b c by simp
qed

end
